theory Spec2Isabelle
  imports Complex_Main "HOL-Library.AList" "HOL-Library.Multiset"
begin

section \<open>Python values and library calls used by the benchmark validator\<close>

text \<open>
  The consensus benchmarking engine is the class \<open>BenchmarkValidator\<close> of
  \<open>neurons/validators/benchmark.py\<close>, together with the default query script of
  \<open>ValidatorConfig.get_benchmark_query_script\<close> in \<open>neurons/remote_config.py\<close>.
  Exceptions are values of a sum type: \<open>Inl e\<close> is a raised exception that nothing has
  caught yet.
\<close>

datatype error = ValueError | TypeError | IndexError | SyntaxError | KeyError | OtherError

subsection \<open>The random module\<close>

text \<open>
  The module-level generator of \<open>random\<close> is shared by \<open>shuffle\<close>, by \<open>randint\<close> in
  \<open>benchmark.py\<close> and by \<open>random.randint\<close> inside the query script. Its state is an
  unbounded supply of draws; \<open>randbelow n\<close> consumes one draw and yields a number below
  \<open>n\<close>.
\<close>

type_synonym rng = "nat \<Rightarrow> nat"

definition randbelow :: "nat \<Rightarrow> rng \<Rightarrow> nat \<times> rng" where
  "randbelow n g = (g 0 mod n, \<lambda>i. g (Suc i))"

text \<open>\<open>randint(a, b)\<close> is \<open>randrange(a, b + 1)\<close>, which raises \<open>ValueError\<close> on an
  empty range.\<close>

definition randint :: "int \<Rightarrow> int \<Rightarrow> rng \<Rightarrow> error + (int \<times> rng)" where
  "randint a b g =
     (let width = b + 1 - a in
      if width \<le> 0 then Inl ValueError
      else (case randbelow (nat width) g of (r, g') \<Rightarrow> Inr (a + int r, g')))"

text \<open>
  \<open>shuffle(x)\<close> is the loop
  \<^verbatim>\<open>for i in reversed(range(1, len(x))): j = randbelow(i + 1); x[i], x[j] = x[j], x[i]\<close>.
\<close>

fun shuffle_loop :: "nat \<Rightarrow> 'a list \<Rightarrow> rng \<Rightarrow> 'a list \<times> rng" where
  "shuffle_loop 0 x g = (x, g)"
| "shuffle_loop (Suc i) x g =
     (case randbelow (Suc (Suc i)) g of
        (j, g') \<Rightarrow> shuffle_loop i (x[Suc i := x ! j, j := x ! Suc i]) g')"

definition shuffle :: "'a list \<Rightarrow> rng \<Rightarrow> 'a list \<times> rng" where
  "shuffle x g = shuffle_loop (length x - 1) x g"

subsection \<open>Dictionaries in insertion order\<close>

text \<open>
  A Python \<open>dict\<close> iterates in insertion order, and the loops of the engine iterate over
  dictionaries, so they are association lists: \<open>AList.update\<close> replaces the value of a
  key that is present in place and appends a new key at the end.
  \<open>d.setdefault(k, []).append(v)\<close>:
\<close>

definition setdefault_append :: "'k \<Rightarrow> 'v \<Rightarrow> ('k \<times> 'v list) list \<Rightarrow> ('k \<times> 'v list) list" where
  "setdefault_append k v d =
     AList.update k ((case map_of d k of None \<Rightarrow> [] | Some vs \<Rightarrow> vs) @ [v]) d"

subsection \<open>\<open>min\<close>, \<open>range\<close> with a step, slices\<close>

fun py_min :: "int list \<Rightarrow> error + int" where
  "py_min [] = Inl ValueError"
| "py_min (x # xs) = Inr (fold min xs x)"

text \<open>\<open>[group[i:i + chunk_size] for i in range(0, len(group), chunk_size)]\<close>; a step of
  zero makes \<open>range\<close> raise \<open>ValueError\<close>, a negative step gives the empty range.\<close>

definition chunked :: "int \<Rightarrow> 'a list \<Rightarrow> error + 'a list list" where
  "chunked chunk_size grp =
     (if chunk_size = 0 then Inl ValueError
      else if chunk_size < 0 then Inr []
      else Inr (map (\<lambda>k. take (nat chunk_size) (drop (k * nat chunk_size) grp))
                  [0..<(length grp + nat chunk_size - 1) div nat chunk_size]))"

subsection \<open>\<open>collections.Counter\<close>\<close>

text \<open>
  \<open>Counter(xs)\<close> counts the elements of \<open>xs\<close> from left to right into a dictionary
  (\<open>self[elem] = self.get(elem, 0) + 1\<close>). \<open>most_common(1)\<close> is
  \<open>heapq.nlargest(1, self.items(), key=itemgetter(1))\<close>, that is \<open>max\<close> over the items
  in dictionary order keyed by the count; \<open>max\<close> keeps the item it holds unless a later one
  is strictly greater.
\<close>

definition counter_add :: "'a \<Rightarrow> ('a \<times> nat) list \<Rightarrow> ('a \<times> nat) list" where
  "counter_add elem c = AList.update elem ((case map_of c elem of None \<Rightarrow> 0 | Some n \<Rightarrow> n) + 1) c"

definition Counter :: "'a list \<Rightarrow> ('a \<times> nat) list" where
  "Counter xs = fold counter_add xs []"

fun max_by_count :: "('a \<times> nat) \<Rightarrow> ('a \<times> nat) list \<Rightarrow> ('a \<times> nat)" where
  "max_by_count best [] = best"
| "max_by_count best (y # ys) = max_by_count (if snd best < snd y then y else best) ys"

definition most_common_1 :: "('a \<times> nat) list \<Rightarrow> ('a \<times> nat) list" where
  "most_common_1 c = (case c of [] \<Rightarrow> [] | x # xs \<Rightarrow> [max_by_count x xs])"

text \<open>\<open>most_common_result, _ = Counter(filtered_result).most_common(1)[0]\<close>\<close>

definition most_common_result :: "'a list \<Rightarrow> error + 'a" where
  "most_common_result filtered_result =
     (case most_common_1 (Counter filtered_result) of
        [] \<Rightarrow> Inl IndexError
      | (r, _) # _ \<Rightarrow> Inr r)"

subsection \<open>Loops that may raise\<close>

text \<open>\<open>for x in xs: body\<close> over a state; an exception raised by the body leaves the loop.\<close>

fun for_each :: "('a \<Rightarrow> 's \<Rightarrow> error + 's) \<Rightarrow> 'a list \<Rightarrow> 's \<Rightarrow> error + 's" where
  "for_each body [] s = Inr s"
| "for_each body (x # xs) s =
     (case body x s of Inl e \<Rightarrow> Inl e | Inr s' \<Rightarrow> for_each body xs s')"

subsection \<open>Decimal rendering of integers in an f-string\<close>

definition digit_char :: "nat \<Rightarrow> char" where
  "digit_char d = ''0123456789'' ! d"

function str_nat :: "nat \<Rightarrow> string" where
  "str_nat n = (if n < 10 then [digit_char n] else str_nat (n div 10) @ [digit_char (n mod 10)])"
  by pat_completeness auto
termination
  by (relation "measure id") auto

declare str_nat.simps [simp del]

definition str_int :: "int \<Rightarrow> string" where
  "str_int i = (if i < 0 then CHR ''-'' # str_nat (nat (- i)) else str_nat (nat i))"

section \<open>Data model\<close>

text \<open>
  A discovery response carries the responder's axon (its hotkey stands for it), the
  declared network \<open>output.metadata.network\<close> and the claimed coverage
  \<open>output.start_block_height\<close>, \<open>output.block_height\<close>. The uid that comes with it is a
  tensor, modelled by the list of its elements.
\<close>

record discovery =
  axon :: string
  network :: string
  start_block_height :: int
  block_height :: int

type_synonym uid = "int list"

type_synonym responder = "discovery \<times> uid"

record group_info =
  common_start :: int
  common_end :: int
  responses :: "responder list list"

type_synonym new_groups = "(string \<times> (int \<times> group_info) list) list"

text \<open>
  The query script is code supplied by the configuration. It is run with the variables
  \<open>network\<close>, \<open>start_block\<close>, \<open>end_block\<close> and \<open>diff\<close>, may draw random numbers, and leaves
  the query in the variable \<open>query\<close> or raises.
\<close>

type_synonym script = "string \<Rightarrow> int \<Rightarrow> int \<Rightarrow> int \<Rightarrow> rng \<Rightarrow> error + (string \<times> rng)"

record validator_config =
  benchmark_timeout :: int
  benchmark_cluster_size :: int
  benchmark_query_chunk_size :: int
  benchmark_query_diff :: int
  get_benchmark_query_script :: "string \<Rightarrow> script"

text \<open>
  \<open>KMeans(n_clusters, random_state=0).fit(data).labels_\<close> is a parameter of the model: the
  labels, one per data point, or the exception raised by \<open>fit\<close>.
\<close>

type_synonym kmeans = "int \<Rightarrow> (int \<times> int) list \<Rightarrow> error + int list"

text \<open>
  \<open>dendrite.query(axon, Benchmark(network, query), timeout)\<close> is a parameter too. The call
  raises, returns \<open>None\<close>, or returns a synapse. Of the synapse the code reads \<open>output\<close>,
  which may be \<open>None\<close>, and \<open>dendrite.process_time\<close>: the attribute \<open>dendrite\<close> may be \<open>None\<close>
  (\<open>NoTerminal\<close>, with the output), and a \<open>process_time\<close> may be \<open>None\<close> as well
  (\<open>Response\<close>, with the process time and the output).
\<close>

datatype 'r reply = Raises | NoResponse | NoTerminal "'r option" | Response "real option" "'r option"

type_synonym 'r dendrite = "string \<Rightarrow> string \<Rightarrow> string \<Rightarrow> int \<Rightarrow> 'r reply"

text \<open>A probe outcome is the triple returned by \<open>run_benchmark\<close>; each component may be
  \<open>None\<close>. The verdict map is the dictionary \<open>results\<close>, keyed by the first component.\<close>

type_synonym 'r outcome = "int option \<times> real option \<times> 'r option"

type_synonym verdicts = "int option \<rightharpoonup> real option \<times> bool"

section \<open>The default query script\<close>

text \<open>
  The f-string of \<open>build_query\<close>.
\<close>

definition query_text :: "int \<Rightarrow> int \<Rightarrow> string" where
  "query_text lo hi =
     ''UNWIND range('' @ str_int lo @ '', '' @ str_int hi @
     '') AS block_height MATCH (p:Transaction) WHERE p.block_height = block_height RETURN SUM(p.block_height);''"

definition build_query :: "string \<Rightarrow> int \<Rightarrow> int \<Rightarrow> int \<Rightarrow> rng \<Rightarrow> error + (string \<times> rng)" where
  "build_query net start_block end_block diff g =
     (let mid_point = start_block + (end_block - start_block) div 2 in
      case randint mid_point (end_block - diff) g of
        Inl e \<Rightarrow> Inl e
      | Inr (block_num, g') \<Rightarrow> Inr (query_text block_num (block_num + diff), g'))"

text \<open>
  The default script ends with \<open>query = build_query(network, start_block, end_block)\<close>: the
  variable \<open>diff\<close> it is run with is not passed on, so \<open>build_query\<close> takes its default
  \<open>diff = 10000\<close>. \<open>default_benchmark_query_script\<close> is the script of that text as a
  configuration supplies it under \<open>benchmark_query_script.<network>\<close>: the same lines without
  the indentation of the surrounding method.
\<close>

definition default_benchmark_query_script :: script where
  "default_benchmark_query_script net start_block end_block diff g =
     build_query net start_block end_block 10000 g"

text \<open>
  The text as it is stored, which \<open>get_benchmark_query_script\<close> returns when the
  configuration has no script for the network: after \<open>strip()\<close> its first line starts at
  column 0 and every other line keeps the indentation of the method, so \<open>exec\<close> cannot
  compile it and raises \<open>IndentationError\<close>, a \<open>SyntaxError\<close>, before any statement runs.
\<close>

definition stored_benchmark_query_script :: script where
  "stored_benchmark_query_script net start_block end_block diff g = Inl SyntaxError"

section \<open>The cohort builder: \<open>group_responses\<close>\<close>

definition network_grouped_responses :: "responder list \<Rightarrow> (string \<times> responder list) list" where
  "network_grouped_responses rs =
     fold (\<lambda>(resp, uid) d. setdefault_append (network resp) (resp, uid) d) rs []"

definition grouped_by_label :: "int list \<Rightarrow> responder list \<Rightarrow> (int \<times> responder list) list" where
  "grouped_by_label labels items =
     fold (\<lambda>(label, item) d. setdefault_append label item d) (zip labels items) []"

text \<open>\<open>new_groups.setdefault(network, {})[label] = info\<close>\<close>

definition set_group :: "string \<Rightarrow> int \<Rightarrow> group_info \<Rightarrow> new_groups \<Rightarrow> new_groups" where
  "set_group net label info ng =
     AList.update net
       (AList.update label info (case map_of ng net of None \<Rightarrow> [] | Some d \<Rightarrow> d)) ng"

text \<open>The body of the loop over the clusters of one network.\<close>

definition group_step ::
  "int \<Rightarrow> string \<Rightarrow> int \<times> responder list \<Rightarrow> new_groups \<times> rng \<Rightarrow> error + (new_groups \<times> rng)" where
  "group_step chunk_size net lg st =
     (case lg of (label, group0) \<Rightarrow> case st of (ng, g) \<Rightarrow>
      case shuffle group0 g of (grp, g') \<Rightarrow>
      case chunked chunk_size grp of
        Inl e \<Rightarrow> Inl e
      | Inr chunked_groups \<Rightarrow>
          (case py_min (map (\<lambda>(resp, _). start_block_height resp) grp) of
             Inl e \<Rightarrow> Inl e
           | Inr min_start \<Rightarrow>
               (case py_min (map (\<lambda>(resp, _). block_height resp) grp) of
                  Inl e \<Rightarrow> Inl e
                | Inr min_end \<Rightarrow>
                    Inr (set_group net label
                           \<lparr>common_start = min_start, common_end = min_end,
                            responses = chunked_groups\<rparr> ng, g'))))"

text \<open>The body of the loop over the networks: only \<open>ValueError\<close> from the clustering is
  caught, and then the network is left out (\<open>continue\<close>).\<close>

definition network_step ::
  "kmeans \<Rightarrow> validator_config \<Rightarrow> string \<times> responder list \<Rightarrow> new_groups \<times> rng
     \<Rightarrow> error + (new_groups \<times> rng)" where
  "network_step km cfg ni st =
     (case ni of (net, items) \<Rightarrow>
      case km (benchmark_cluster_size cfg)
             (map (\<lambda>(resp, _). (start_block_height resp, block_height resp)) items) of
        Inl e \<Rightarrow> (if e = ValueError then Inr st else Inl e)
      | Inr labels \<Rightarrow>
          for_each (group_step (benchmark_query_chunk_size cfg) net)
            (grouped_by_label labels items) st)"

definition group_responses ::
  "kmeans \<Rightarrow> validator_config \<Rightarrow> responder list \<Rightarrow> rng \<Rightarrow> error + (new_groups \<times> rng)" where
  "group_responses km cfg rs g =
     for_each (network_step km cfg) (network_grouped_responses rs) ([], g)"

section \<open>The probe executor: \<open>run_benchmark\<close> and \<open>execute_benchmarks\<close>\<close>

text \<open>\<open>uid.item() if uid.numel() == 1 else int(uid.numpy())\<close>: a tensor with one element
  gives that element, any other makes the conversion raise. (The signature of
  \<open>group_responses\<close> annotates the uid as \<open>str\<close>; for a string \<open>uid.numel()\<close> raises, with the
  same outcome as a conversion that raises.)

  \<open>run_benchmark\<close> catches every exception and returns the failure triple. It tests only
  \<open>output\<close> for \<open>None\<close>; \<open>benchmark_response.dendrite.process_time\<close> is returned as it is, so
  it raises where \<open>dendrite\<close> is \<open>None\<close> and gives a latency \<open>None\<close> where the process time is.\<close>

fun uid_item :: "uid \<Rightarrow> error + int" where
  "uid_item [x] = Inr x"
| "uid_item _ = Inl TypeError"

definition run_benchmark ::
  "'r dendrite \<Rightarrow> validator_config \<Rightarrow> discovery \<Rightarrow> uid \<Rightarrow> string \<Rightarrow> 'r outcome" where
  "run_benchmark dendrite cfg response uid benchmark_query =
     (case uid_item uid of
        Inl e \<Rightarrow> (None, None, None)
      | Inr uid_value \<Rightarrow>
          (case dendrite (axon response) (network response) benchmark_query
                  (benchmark_timeout cfg) of
             Raises \<Rightarrow> (None, None, None)
           | NoResponse \<Rightarrow> (None, None, None)
           | NoTerminal None \<Rightarrow> (None, None, None)
           | NoTerminal (Some out) \<Rightarrow> (None, None, None)
           | Response response_time None \<Rightarrow> (None, None, None)
           | Response response_time (Some out) \<Rightarrow>
               (Some uid_value, response_time, Some out)))"

definition execute_benchmarks ::
  "'r dendrite \<Rightarrow> validator_config \<Rightarrow> responder list \<Rightarrow> string \<Rightarrow> 'r outcome list" where
  "execute_benchmarks dendrite cfg rs benchmark_query =
     filter (\<lambda>result. snd (snd result) \<noteq> None)
       (map (\<lambda>(response, uid). run_benchmark dendrite cfg response uid benchmark_query) rs)"

section \<open>The consensus scorer and the pass: \<open>run_benchmarks\<close>\<close>

text \<open>
  The scoring block of \<open>run_benchmarks\<close>, guarded by \<open>if benchmark_results:\<close> and wrapped
  in \<open>try\<close>: an exception inside it (here only \<open>most_common(1)[0]\<close> on an empty counter;
  result values are taken to be hashable and comparable, as the values of a HOL type are)
  is logged and leaves \<open>results\<close> as it is. \<open>assign_verdicts\<close> is the loop
  \<open>for uid_value, response_time, result in benchmark_results\<close>.
\<close>

fun assign_verdicts :: "'r option \<Rightarrow> 'r outcome list \<Rightarrow> verdicts \<Rightarrow> verdicts" where
  "assign_verdicts most_common [] results = results"
| "assign_verdicts most_common ((uid_value, response_time, result) # rest) results =
     assign_verdicts most_common rest
       (results(uid_value \<mapsto> (response_time, result = most_common)))"

definition score_chunk :: "verdicts \<Rightarrow> 'r outcome list \<Rightarrow> verdicts" where
  "score_chunk results benchmark_results =
     (if benchmark_results = [] then results
      else (case most_common_result (map (\<lambda>(_, _, response_output). response_output)
                                        benchmark_results) of
              Inl e \<Rightarrow> results
            | Inr most_common \<Rightarrow> assign_verdicts most_common benchmark_results results))"

text \<open>
  The state of the pass is the verdict map, the random generator and the record of the
  probes sent so far (responder and query of every call of \<open>run_benchmark\<close>).
\<close>

type_synonym pass_state = "verdicts \<times> rng \<times> (discovery \<times> uid \<times> string) list"

text \<open>The body of the loop over the chunks of a cohort: draw the jitter, run the script,
  probe the chunk, score it. The \<open>exec\<close> of the script is outside any \<open>try\<close>.\<close>

definition chunk_step ::
  "'r dendrite \<Rightarrow> validator_config \<Rightarrow> script \<Rightarrow> string \<Rightarrow> group_info \<Rightarrow> responder list
     \<Rightarrow> pass_state \<Rightarrow> error + pass_state" where
  "chunk_step dendrite cfg benchmark_query_script net info chunk st =
     (case st of (results, g, probes) \<Rightarrow>
      case randint 0 100 g of
        Inl e \<Rightarrow> Inl e
      | Inr (jitter, g1) \<Rightarrow>
          (case benchmark_query_script net (common_start info) (common_end info)
                  (benchmark_query_diff cfg - jitter) g1 of
             Inl e \<Rightarrow> Inl e
           | Inr (benchmark_query, g2) \<Rightarrow>
               Inr (score_chunk results (execute_benchmarks dendrite cfg chunk benchmark_query),
                    g2,
                    probes @ map (\<lambda>(response, uid). (response, uid, benchmark_query)) chunk)))"

definition label_step ::
  "'r dendrite \<Rightarrow> validator_config \<Rightarrow> string \<Rightarrow> int \<times> group_info \<Rightarrow> pass_state
     \<Rightarrow> error + pass_state" where
  "label_step dendrite cfg net li st =
     (case li of (label, info) \<Rightarrow>
        for_each (chunk_step dendrite cfg (get_benchmark_query_script cfg net) net info)
          (responses info) st)"

definition network_pass ::
  "'r dendrite \<Rightarrow> validator_config \<Rightarrow> string \<times> (int \<times> group_info) list \<Rightarrow> pass_state
     \<Rightarrow> error + pass_state" where
  "network_pass dendrite cfg nm st =
     (case nm of (net, main_group) \<Rightarrow> for_each (label_step dendrite cfg net) main_group st)"

definition run_benchmarks ::
  "kmeans \<Rightarrow> 'r dendrite \<Rightarrow> validator_config \<Rightarrow> responder list \<Rightarrow> rng \<Rightarrow> error + pass_state" where
  "run_benchmarks km dendrite cfg filtered_responses g =
     (case group_responses km cfg filtered_responses g of
        Inl e \<Rightarrow> Inl e
      | Inr (grouped_responses, g') \<Rightarrow>
          for_each (network_pass dendrite cfg) grouped_responses (Map.empty, g', []))"

section \<open>Concrete inputs\<close>

text \<open>A configuration with the defaults of \<open>ValidatorConfig\<close> that supplies the default
  query script without its indentation, and the chunks, cohorts and transports on which the
  properties below are evaluated.\<close>

definition example_config :: validator_config where
  "example_config =
     \<lparr>benchmark_timeout = 600, benchmark_cluster_size = 1, benchmark_query_chunk_size = 5,
      benchmark_query_diff = 10000,
      get_benchmark_query_script = (\<lambda>_. default_benchmark_query_script)\<rparr>"

definition claim :: "string \<Rightarrow> string \<Rightarrow> int \<Rightarrow> int \<Rightarrow> discovery" where
  "claim a n s e = \<lparr>axon = a, network = n, start_block_height = s, block_height = e\<rparr>"

definition scenario_b_chunk :: "responder list" where
  "scenario_b_chunk =
     [(claim ''r1'' ''bitcoin'' 0 100000, [1]),
      (claim ''r2'' ''bitcoin'' 0 100000, [2]),
      (claim ''r3'' ''bitcoin'' 0 100000, [3])]"

definition scenario_b_dendrite :: "string dendrite" where
  "scenario_b_dendrite a n q t =
     (if a = ''r1'' then Response (Some 50) (Some ''X'')
      else if a = ''r2'' then Response (Some 60) (Some ''X'')
      else Response (Some 9999) (Some ''Y''))"


text \<open>\<open>KMeans.fit\<close> with one cluster (\<open>benchmark_cluster_size = 1\<close>, the default that
  \<open>load_and_get_config_values\<close> reads): every point gets the label 0. It is used with a
  cluster count of one only.\<close>

definition one_cluster :: kmeans where
  "one_cluster k data = Inr (map (\<lambda>_. 0) data)"

definition pass_a_responses :: "responder list" where
  "pass_a_responses =
     [(claim ''r1'' ''bitcoin'' 1000 21000, [1]),
      (claim ''r2'' ''bitcoin'' 1000 21000, [2]),
      (claim ''r3'' ''bitcoin'' 1000 21000, [3])]"

definition pass_a_dendrite :: "string dendrite" where
  "pass_a_dendrite a n q t =
     (if a = ''r1'' then Response (Some 50) (Some ''X'')
      else if a = ''r2'' then Raises
      else Response (Some 9999) (Some ''Y''))"

definition query_11000 :: string where
  "query_11000 = ''UNWIND range(11000, 21000) AS block_height MATCH (p:Transaction) WHERE p.block_height = block_height RETURN SUM(p.block_height);''"

text \<open>A transport whose replies carry an output and no process time.\<close>

definition no_latency_dendrite :: "string dendrite" where
  "no_latency_dendrite a n q t = Response None (Some ''X'')"

text \<open>A generator whose draws are all zero, and a cohort of two responders with different
  claimed intervals.\<close>

definition zero_draws :: rng where
  "zero_draws = (\<lambda>_. 0)"

definition mixed_responses :: "responder list" where
  "mixed_responses =
     [(claim ''r1'' ''bitcoin'' 100 200, [1]),
      (claim ''r2'' ''bitcoin'' 50 300, [2])]"

definition mixed_cohort :: group_info where
  "mixed_cohort =
     \<lparr>common_start = 50, common_end = 200,
      responses = [[(claim ''r2'' ''bitcoin'' 50 300, [2]), (claim ''r1'' ''bitcoin'' 100 200, [1])]]\<rparr>"

text \<open>
  A stand-in for \<open>KMeans.fit\<close> on the two kinds of input where what the library returns is
  fixed without running the algorithm: with fewer points than clusters
  (\<open>n_samples < n_clusters\<close>) \<open>fit\<close> raises \<open>ValueError\<close>; with enough points that all coincide
  it only warns about the number of distinct clusters found and gives every point the label
  0. The properties below evaluate it on such inputs only. Further: a generator with given
  first draws, configurations and responders.
\<close>

definition coinciding_points_kmeans :: kmeans where
  "coinciding_points_kmeans k data =
     (if int (length data) < k then Inl ValueError else Inr (map (\<lambda>_. 0) data))"

definition two_cluster_config :: validator_config where
  "two_cluster_config = example_config\<lparr>benchmark_cluster_size := 2\<rparr>"

definition twin_responses :: "responder list" where
  "twin_responses =
     [(claim ''r1'' ''bitcoin'' 1000 21000, [1]),
      (claim ''r3'' ''bitcoin'' 1000 21000, [3])]"

definition pass_d_responses :: "responder list" where
  "pass_d_responses =
     [(claim ''r1'' ''bitcoin'' 1000 21000, [1]),
      (claim ''d1'' ''doge'' 0 50000, [7]),
      (claim ''r3'' ''bitcoin'' 1000 21000, [3])]"

definition draws_of :: "nat list \<Rightarrow> rng" where
  "draws_of ds = (\<lambda>i. if i < length ds then ds ! i else 0)"

definition cohort_a :: group_info where
  "cohort_a = \<lparr>common_start = 1000, common_end = 21000,
               responses = [[(claim ''r1'' ''bitcoin'' 1000 21000, [1])]]\<rparr>"

definition narrow_responses :: "responder list" where
  "narrow_responses =
     [(claim ''n1'' ''bitcoin'' 0 100, [1]),
      (claim ''r3'' ''doge'' 1000 21000, [3])]"

definition single_chunk_config :: validator_config where
  "single_chunk_config = example_config\<lparr>benchmark_query_chunk_size := 1\<rparr>"

definition wide_responses :: "responder list" where
  "wide_responses =
     [(claim ''r1'' ''bitcoin'' 0 40000, [1]),
      (claim ''r2'' ''bitcoin'' 0 40000, [2])]"

section \<open>Auxiliary notions\<close>

text \<open>The count a counter dictionary holds for an element, \<open>c.get(x, 0)\<close>.\<close>

definition cnt :: "('a \<times> nat) list \<Rightarrow> 'a \<Rightarrow> nat" where
  "cnt c x = (case map_of c x of None \<Rightarrow> 0 | Some n \<Rightarrow> n)"


text \<open>The invariant of the pass: every key of the verdict map is the first component of
  the outcome of a probe that was sent and that succeeded.\<close>

definition probed :: "'r dendrite \<Rightarrow> validator_config \<Rightarrow> pass_state \<Rightarrow> bool" where
  "probed dendrite cfg st =
     (case st of (results, g, probes) \<Rightarrow>
        \<forall>k\<in>dom results. \<exists>response uid q t r. (response, uid, q) \<in> set probes \<and>
           run_benchmark dendrite cfg response uid q = (k, t, Some r))"

text \<open>Both grouping loops of \<open>group_responses\<close> fill a dictionary of lists by
  \<open>setdefault(k, []).append(v)\<close>; \<open>group_by\<close> is their common shape.\<close>

definition group_by :: "('x \<Rightarrow> 'k) \<Rightarrow> ('x \<Rightarrow> 'v) \<Rightarrow> 'x list \<Rightarrow> ('k \<times> 'v list) list" where
  "group_by kf vf xs = fold (\<lambda>x d. setdefault_append (kf x) (vf x) d) xs []"

text \<open>The invariant of the cohort builder: the members of a cohort (its chunks, put
  together) are responders of the cohort's network, there is at least one, and the two
  bounds are the minima of the members' bounds.\<close>

definition cohort_ok :: "responder list \<Rightarrow> string \<Rightarrow> group_info \<Rightarrow> bool" where
  "cohort_ok rs net info \<longleftrightarrow>
     concat (responses info) \<noteq> [] \<and>
     set (concat (responses info)) \<subseteq> {x \<in> set rs. network (fst x) = net} \<and>
     common_start info = Min ((\<lambda>(resp, _). start_block_height resp) ` set (concat (responses info))) \<and>
     common_end info = Min ((\<lambda>(resp, _). block_height resp) ` set (concat (responses info)))"

definition groups_ok :: "responder list \<Rightarrow> new_groups \<times> rng \<Rightarrow> bool" where
  "groups_ok rs st \<longleftrightarrow>
     (\<forall>net d label info. (net, d) \<in> set (fst st) \<longrightarrow> (label, info) \<in> set d \<longrightarrow> cohort_ok rs net info)"

text \<open>The number of distinct coverage points \<open>(start, end)\<close> among responders.\<close>

definition distinct_points :: "responder list \<Rightarrow> nat" where
  "distinct_points items =
     card (set (map (\<lambda>(resp, _). (start_block_height resp, block_height resp)) items))"

text \<open>The members of every chunk are responders of the input, of the cohort's network.\<close>

definition groups_sub :: "responder list \<Rightarrow> new_groups \<times> rng \<Rightarrow> bool" where
  "groups_sub rs st \<longleftrightarrow>
     (\<forall>net d label info chunk x.
        (net, d) \<in> set (fst st) \<longrightarrow> (label, info) \<in> set d \<longrightarrow>
        chunk \<in> set (responses info) \<longrightarrow> x \<in> set chunk \<longrightarrow> x \<in> set rs \<and> network (fst x) = net)"

text \<open>Every probe of the pass went to a responder of the input.\<close>

definition probes_from :: "responder list \<Rightarrow> pass_state \<Rightarrow> bool" where
  "probes_from rs st \<longleftrightarrow>
     (\<forall>response uid q. (response, uid, q) \<in> set (snd (snd st)) \<longrightarrow> (response, uid) \<in> set rs)"

text \<open>All members of a chunk were sent one and the same query.\<close>

definition sent_same_query :: "responder list \<Rightarrow> pass_state \<Rightarrow> bool" where
  "sent_same_query chunk st \<longleftrightarrow>
     (\<exists>q. \<forall>(response, uid)\<in>set chunk. (response, uid, q) \<in> set (snd (snd st)))"

section \<open>The counter and the most common result\<close>

lemma Counter_snoc: "Counter (xs @ [x]) = counter_add x (Counter xs)"
  by (simp add: Counter_def)

lemma keys_counter_add:
  "map fst (counter_add x c) = (if x \<in> set (map fst c) then map fst c else map fst c @ [x])"
  by (simp add: counter_add_def update_keys)

lemma map_of_counter_add:
  "map_of (counter_add x c) y = (if y = x then Some (cnt c x + 1) else map_of c y)"
  by (simp add: counter_add_def update_conv' cnt_def)

lemma set_keys_Counter: "set (map fst (Counter xs)) = set xs"
proof (induction xs rule: rev_induct)
  case Nil
  show ?case by (simp add: Counter_def)
next
  case (snoc x xs)
  then show ?case by (auto simp: Counter_snoc keys_counter_add simp del: set_map)
qed

lemma distinct_keys_Counter: "distinct (map fst (Counter xs))"
proof (induction xs rule: rev_induct)
  case Nil
  show ?case by (simp add: Counter_def)
next
  case (snoc x xs)
  then show ?case by (simp add: Counter_snoc keys_counter_add del: set_map)
qed

lemma map_of_Counter:
  "map_of (Counter xs) x = (if x \<in> set xs then Some (count_list xs x) else None)"
proof (induction xs arbitrary: x rule: rev_induct)
  case Nil
  show ?case by (simp add: Counter_def)
next
  case (snoc y xs)
  then show ?case by (simp add: Counter_snoc map_of_counter_add cnt_def count_list_0_iff)
qed

lemma keys_order_Counter:
  "a \<in> set (takeWhile (\<lambda>y. y \<noteq> b) (map fst (Counter xs)))
     \<Longrightarrow> a \<in> set (takeWhile (\<lambda>y. y \<noteq> b) xs)"
proof (induction xs rule: rev_induct)
  case Nil
  then show ?case by (simp add: Counter_def)
next
  case (snoc x xs)
  let ?ks = "map fst (Counter xs)"
  have ks: "set ?ks = set xs" by (rule set_keys_Counter)
  show ?case
  proof (cases "b \<in> set xs")
    case True
    with ks have "b \<in> set ?ks" by simp
    then have "takeWhile (\<lambda>y. y \<noteq> b) (map fst (Counter (xs @ [x]))) = takeWhile (\<lambda>y. y \<noteq> b) ?ks"
      by (auto simp: Counter_snoc keys_counter_add takeWhile_append1 simp del: set_map)
    with snoc have "a \<in> set (takeWhile (\<lambda>y. y \<noteq> b) xs)" by simp
    moreover from True have "takeWhile (\<lambda>y. y \<noteq> b) (xs @ [x]) = takeWhile (\<lambda>y. y \<noteq> b) xs"
      by (auto simp: takeWhile_append1)
    ultimately show ?thesis by simp
  next
    case False
    then have "\<And>y. y \<in> set xs \<Longrightarrow> y \<noteq> b" by auto
    then have tw: "takeWhile (\<lambda>y. y \<noteq> b) (xs @ [x]) = xs @ (if x \<noteq> b then [x] else [])"
      by (simp add: takeWhile_append2)
    have "set (takeWhile (\<lambda>y. y \<noteq> b) (map fst (Counter (xs @ [x])))) \<subseteq> set (map fst (Counter (xs @ [x]))) - {b}"
      using set_takeWhileD by fastforce
    with snoc.prems have "a \<in> set (xs @ [x])" "a \<noteq> b"
      using set_keys_Counter[of "xs @ [x]"] by auto
    with tw show ?thesis by auto
  qed
qed

lemma max_by_count_props:
  "(max_by_count best ys = best \<and> (\<forall>y\<in>set ys. snd y \<le> snd best)) \<or>
   (max_by_count best ys \<in> set ys \<and> snd best < snd (max_by_count best ys) \<and>
    (\<forall>y\<in>set ys. snd y \<le> snd (max_by_count best ys)) \<and>
    (\<forall>y\<in>set (takeWhile (\<lambda>y. y \<noteq> max_by_count best ys) ys). snd y < snd (max_by_count best ys)))"
proof (induction ys arbitrary: best)
  case Nil
  show ?case by simp
next
  case (Cons y ys)
  show ?case
  proof (cases "snd best < snd y")
    case True
    with Cons[of y] show ?thesis by (auto simp: less_imp_le) 
  next
    case False
    with Cons[of best] show ?thesis by fastforce
  qed
qed

lemma max_by_count_first:
  "max_by_count it its \<in> set (it # its) \<and>
   (\<forall>y\<in>set (it # its). snd y \<le> snd (max_by_count it its)) \<and>
   (\<forall>y\<in>set (takeWhile (\<lambda>y. y \<noteq> max_by_count it its) (it # its)). snd y < snd (max_by_count it its))"
  using max_by_count_props[of it its] by auto

lemma before_or_after:
  "a \<in> set l \<Longrightarrow> b \<in> set l \<Longrightarrow> a \<noteq> b \<Longrightarrow>
     a \<in> set (takeWhile (\<lambda>y. y \<noteq> b) l) \<or> b \<in> set (takeWhile (\<lambda>y. y \<noteq> a) l)"
  by (induction l) auto

lemma takeWhile_keys:
  assumes "distinct (map fst l)" and "(k, v) \<in> set l"
  shows "takeWhile (\<lambda>y. y \<noteq> k) (map fst l) = map fst (takeWhile (\<lambda>y. y \<noteq> (k, v)) l)"
proof -
  have "takeWhile (\<lambda>y. y \<noteq> (k, v)) l = takeWhile (\<lambda>y. fst y \<noteq> k) l"
  proof (rule takeWhile_cong)
    fix y assume "y \<in> set l"
    with assms show "(y \<noteq> (k, v)) = (fst y \<noteq> k)"
      by (cases y) (auto dest: eq_key_imp_eq_value)
  qed simp
  then show ?thesis by (simp add: takeWhile_map comp_def)
qed

lemma most_common_result_majority:
  assumes "xs \<noteq> []"
  shows "\<exists>m. most_common_result xs = Inr m \<and> m \<in> set xs \<and>
           (\<forall>x. count_list xs x \<le> count_list xs m) \<and>
           (\<forall>x. x \<noteq> m \<and> count_list xs x = count_list xs m
                 \<longrightarrow> m \<in> set (takeWhile (\<lambda>y. y \<noteq> x) xs))"
proof -
  let ?c = "Counter xs"
  have keys: "set (map fst ?c) = set xs" by (rule set_keys_Counter)
  have dist: "distinct (map fst ?c)" by (rule distinct_keys_Counter)
  have item: "(x, n) \<in> set ?c \<longleftrightarrow> x \<in> set xs \<and> n = count_list xs x" for x n
    by (auto simp: map_of_eq_Some_iff[OF dist, symmetric] map_of_Counter split: if_splits)
  from assms keys obtain it its where c: "?c = it # its"
    by (cases ?c) auto
  obtain m n where r: "max_by_count it its = (m, n)" by (cases "max_by_count it its")
  note first = max_by_count_first[of it its, unfolded r, folded c]
  from first have mem: "(m, n) \<in> set ?c" by blast
  from first have le: "\<forall>y\<in>set ?c. snd y \<le> n" by simp
  from first have before: "\<forall>y\<in>set (takeWhile (\<lambda>y. y \<noteq> (m, n)) ?c). snd y < n" by simp
  from mem item have m: "m \<in> set xs" and n: "n = count_list xs m" by simp_all
  have res: "most_common_result xs = Inr m"
    by (simp add: most_common_result_def most_common_1_def c r)
  have max: "count_list xs x \<le> count_list xs m" for x
  proof (cases "x \<in> set xs")
    case True
    then have "(x, count_list xs x) \<in> set ?c" by (simp add: item)
    with le n show ?thesis by fastforce
  next
    case False
    then show ?thesis by (simp add: count_list_0_iff)
  qed
  have tie: "m \<in> set (takeWhile (\<lambda>y. y \<noteq> x) xs)"
    if "x \<noteq> m" and eq: "count_list xs x = count_list xs m" for x
  proof -
    from m have "count_list xs m \<noteq> 0" by (simp add: count_list_0_iff)
    with eq have "count_list xs x \<noteq> 0" by simp
    then have x: "x \<in> set xs" by (simp add: count_list_0_iff)
    have "x \<notin> set (takeWhile (\<lambda>y. y \<noteq> m) (map fst ?c))"
    proof
      assume "x \<in> set (takeWhile (\<lambda>y. y \<noteq> m) (map fst ?c))"
      then obtain v where v: "(x, v) \<in> set (takeWhile (\<lambda>y. y \<noteq> (m, n)) ?c)"
        by (auto simp: takeWhile_keys[OF dist mem])
      then have "(x, v) \<in> set ?c" by (rule set_takeWhileD[THEN conjunct1])
      with item have "v = count_list xs x" by simp
      moreover from v before have "v < n" by fastforce
      ultimately show False using eq n by simp
    qed
    moreover from x m keys have "x \<in> set (map fst ?c)" "m \<in> set (map fst ?c)" by simp_all
    ultimately have "m \<in> set (takeWhile (\<lambda>y. y \<noteq> x) (map fst ?c))"
      using before_or_after[of m "map fst ?c" x] that(1) by blast
    then show ?thesis by (rule keys_order_Counter)
  qed
  from res m max tie show ?thesis by blast
qed

lemma assign_verdicts_other:
  "u \<notin> fst ` set brs \<Longrightarrow> assign_verdicts m brs results u = results u"
  by (induction m brs results rule: assign_verdicts.induct) auto

lemma assign_verdicts_member:
  "distinct (map fst brs) \<Longrightarrow> (u, t, r) \<in> set brs \<Longrightarrow>
   assign_verdicts m brs results u = Some (t, r = m)"
proof (induction m brs results rule: assign_verdicts.induct)
  case (1 m results)
  then show ?case by simp
next
  case (2 m u' t' r' rest results)
  show ?case
  proof (cases "(u, t, r) = (u', t', r')")
    case True
    with "2.prems" have "u \<notin> fst ` set rest" by force
    with True show ?thesis by (simp add: assign_verdicts_other)
  next
    case False
    with "2.prems" have "distinct (map fst rest)" and "(u, t, r) \<in> set rest" by auto
    then have "assign_verdicts m rest (results(u' \<mapsto> (t', r' = m))) u = Some (t, r = m)"
      by (rule "2.IH")
    then show ?thesis by (simp only: assign_verdicts.simps)
  qed
qed

lemma dom_assign_verdicts:
  "dom (assign_verdicts m brs results) = dom results \<union> fst ` set brs"
proof (induction m brs results rule: assign_verdicts.induct)
  case (1 m results)
  show ?case by simp
next
  case (2 m u t r rest results)
  have "dom (assign_verdicts m ((u, t, r) # rest) results)
          = dom (results(u \<mapsto> (t, r = m))) \<union> fst ` set rest"
    using "2.IH" by (simp only: assign_verdicts.simps)
  also have "\<dots> = dom results \<union> fst ` set ((u, t, r) # rest)" by auto
  finally show ?case .
qed

section \<open>The consensus scorer\<close>

text \<open>
  C1. For a chunk with at least one non-failed outcome (the outcomes that
  \<open>execute_benchmarks\<close> keeps), whose responders have different uids, the scorer's
  majority value \<open>m\<close> is a result that occurs among the outcomes, no result occurs more
  often, and every other result that occurs as often is first met after \<open>m\<close> in outcome
  order; every outcome \<open>(u, t, r)\<close> gets the verdict \<open>(t, r = m)\<close>.
\<close>

theorem majority_verdicts_per_chunk:
  assumes "execute_benchmarks dendrite cfg chunk q \<noteq> []"
    and "distinct (map fst (execute_benchmarks dendrite cfg chunk q))"
  shows "\<exists>m. most_common_result
               (map (\<lambda>(_, _, out). out) (execute_benchmarks dendrite cfg chunk q)) = Inr m \<and>
             m \<in> set (map (\<lambda>(_, _, out). out) (execute_benchmarks dendrite cfg chunk q)) \<and>
             (\<forall>x. count_list (map (\<lambda>(_, _, out). out) (execute_benchmarks dendrite cfg chunk q)) x
                    \<le> count_list (map (\<lambda>(_, _, out). out) (execute_benchmarks dendrite cfg chunk q)) m) \<and>
             (\<forall>x. x \<noteq> m \<and>
                  count_list (map (\<lambda>(_, _, out). out) (execute_benchmarks dendrite cfg chunk q)) x
                    = count_list (map (\<lambda>(_, _, out). out) (execute_benchmarks dendrite cfg chunk q)) m
                  \<longrightarrow> m \<in> set (takeWhile (\<lambda>y. y \<noteq> x)
                                 (map (\<lambda>(_, _, out). out) (execute_benchmarks dendrite cfg chunk q)))) \<and>
             (\<forall>u t r. (u, t, r) \<in> set (execute_benchmarks dendrite cfg chunk q)
                  \<longrightarrow> score_chunk results (execute_benchmarks dendrite cfg chunk q) u
                        = Some (t, r = m))"
proof -
  let ?brs = "execute_benchmarks dendrite cfg chunk q"
  let ?outs = "map (\<lambda>(_, _, out). out) ?brs"
  from assms(1) have "?outs \<noteq> []" by simp
  from most_common_result_majority[OF this] obtain m where
    m: "most_common_result ?outs = Inr m" "m \<in> set ?outs"
       "\<forall>x. count_list ?outs x \<le> count_list ?outs m"
       "\<forall>x. x \<noteq> m \<and> count_list ?outs x = count_list ?outs m
            \<longrightarrow> m \<in> set (takeWhile (\<lambda>y. y \<noteq> x) ?outs)"
    by blast
  have "score_chunk results ?brs u = Some (t, r = m)" if "(u, t, r) \<in> set ?brs" for u t r
    using assms m(1) that by (simp add: score_chunk_def assign_verdicts_member)
  with m show ?thesis by blast
qed

text \<open>Scenario B: results X, X, Y with latencies 50, 60, 9999.\<close>

lemma scenario_b_outcomes:
  "execute_benchmarks scenario_b_dendrite example_config scenario_b_chunk q =
     [(Some 1, Some 50, Some ''X''), (Some 2, Some 60, Some ''X''), (Some 3, Some 9999, Some ''Y'')]"
  by (simp add: execute_benchmarks_def run_benchmark_def scenario_b_chunk_def
      scenario_b_dendrite_def claim_def)

lemma scenario_b_majority:
  "most_common_result [Some ''X'', Some ''X'', Some ''Y''] = Inr (Some ''X'')"
  by (simp add: most_common_result_def most_common_1_def Counter_def counter_add_def)

theorem majority_verdicts_scenario_b:
  "execute_benchmarks scenario_b_dendrite example_config scenario_b_chunk ''RETURN 1'' =
     [(Some 1, Some 50, Some ''X''), (Some 2, Some 60, Some ''X''), (Some 3, Some 9999, Some ''Y'')] \<and>
   most_common_result [Some ''X'', Some ''X'', Some ''Y''] = Inr (Some ''X'') \<and>
   score_chunk Map.empty
     (execute_benchmarks scenario_b_dendrite example_config scenario_b_chunk ''RETURN 1'') (Some 1)
       = Some (Some 50, True) \<and>
   score_chunk Map.empty
     (execute_benchmarks scenario_b_dendrite example_config scenario_b_chunk ''RETURN 1'') (Some 2)
       = Some (Some 60, True) \<and>
   score_chunk Map.empty
     (execute_benchmarks scenario_b_dendrite example_config scenario_b_chunk ''RETURN 1'') (Some 3)
       = Some (Some 9999, False)"
  using majority_verdicts_per_chunk[of scenario_b_dendrite example_config scenario_b_chunk "''RETURN 1''" Map.empty]
  by (simp add: scenario_b_outcomes scenario_b_majority)

section \<open>Evaluating the model on the concrete inputs\<close>

lemma example_config_fields:
  "benchmark_timeout example_config = 600"
  "benchmark_cluster_size example_config = 1"
  "benchmark_query_chunk_size example_config = 5"
  "benchmark_query_diff example_config = 10000"
  "get_benchmark_query_script example_config net = default_benchmark_query_script"
  by (simp_all add: example_config_def)

lemma str_int_11000: "str_int 11000 = ''11000''"
  by (simp add: str_int_def str_nat.simps digit_char_def)

lemma str_int_21000: "str_int 21000 = ''21000''"
  by (simp add: str_int_def str_nat.simps digit_char_def)

lemma group_a:
  "group_responses one_cluster example_config pass_a_responses (\<lambda>_. 0) =
     Inr ([(''bitcoin'', [(0, \<lparr>common_start = 1000, common_end = 21000,
            responses = [[(claim ''r2'' ''bitcoin'' 1000 21000, [2]),
      (claim ''r3'' ''bitcoin'' 1000 21000, [3]),
      (claim ''r1'' ''bitcoin'' 1000 21000, [1])]]\<rparr>)])], (\<lambda>_. 0))"
  by (simp add: group_responses_def network_grouped_responses_def pass_a_responses_def
      setdefault_append_def claim_def network_step_def one_cluster_def example_config_def
      grouped_by_label_def group_step_def shuffle_def randbelow_def chunked_def set_group_def
      numeral_2_eq_2)

lemma script_a:
  "default_benchmark_query_script ''bitcoin'' 1000 21000 d (\<lambda>_. 0) = Inr (query_11000, (\<lambda>_. 0))"
  by (simp add: default_benchmark_query_script_def build_query_def randint_def randbelow_def
      query_text_def str_int_11000 str_int_21000 query_11000_def)

lemma execute_a:
  "execute_benchmarks pass_a_dendrite example_config
     [(claim ''r2'' ''bitcoin'' 1000 21000, [2]),
      (claim ''r3'' ''bitcoin'' 1000 21000, [3]),
      (claim ''r1'' ''bitcoin'' 1000 21000, [1])] q
   = [(Some 3, Some 9999, Some ''Y''), (Some 1, Some 50, Some ''X'')]"
  by (simp add: execute_benchmarks_def run_benchmark_def pass_a_dendrite_def claim_def)

lemma score_a:
  "score_chunk Map.empty [(Some 3, Some 9999, Some ''Y''), (Some 1, Some 50, Some ''X'')]
     = [Some 3 \<mapsto> (Some 9999, True), Some 1 \<mapsto> (Some 50, False)]"
  by (simp add: score_chunk_def most_common_result_def most_common_1_def Counter_def
      counter_add_def)

lemma pass_a:
  "run_benchmarks one_cluster pass_a_dendrite example_config pass_a_responses (\<lambda>_. 0) =
     Inr ([Some 3 \<mapsto> (Some 9999, True), Some 1 \<mapsto> (Some 50, False)], (\<lambda>_. 0),
          [(claim ''r2'' ''bitcoin'' 1000 21000, [2], query_11000),
           (claim ''r3'' ''bitcoin'' 1000 21000, [3], query_11000),
           (claim ''r1'' ''bitcoin'' 1000 21000, [1], query_11000)])"
  by (simp add: run_benchmarks_def group_a network_pass_def label_step_def chunk_step_def
      randint_def randbelow_def example_config_fields script_a execute_a score_a)

section \<open>Loops and the invariant of the pass\<close>

lemma for_each_invariant:
  assumes "for_each body xs s = Inr s'" and "I s"
    and "\<And>x s s'. x \<in> set xs \<Longrightarrow> I s \<Longrightarrow> body x s = Inr s' \<Longrightarrow> I s'"
  shows "I s'"
  using assms
proof (induction xs arbitrary: s)
  case Nil
  then show ?case by simp
next
  case (Cons x xs)
  from Cons.prems(1) obtain s1 where s1: "body x s = Inr s1" and rest: "for_each body xs s1 = Inr s'"
    by (auto split: sum.splits)
  from Cons.prems(3)[OF _ Cons.prems(2) s1] have "I s1" by simp
  show ?case
  proof (rule Cons.IH[OF rest \<open>I s1\<close>])
    fix y t t'
    assume "y \<in> set xs" "I t" "body y t = Inr t'"
    then show "I t'" using Cons.prems(3)[of y t t'] by simp
  qed
qed

lemma run_benchmark_cases:
  "run_benchmark dendrite cfg response uid q = (None, None, None) \<or>
   (\<exists>u t r. uid_item uid = Inr u \<and>
      run_benchmark dendrite cfg response uid q = (Some u, t, Some r))"
  by (simp add: run_benchmark_def split: sum.splits reply.splits option.splits)

lemma execute_benchmarks_member:
  assumes "b \<in> set (execute_benchmarks dendrite cfg chunk q)"
  shows "\<exists>response uid u t r. (response, uid) \<in> set chunk \<and> uid_item uid = Inr u \<and>
           b = (Some u, t, Some r) \<and> run_benchmark dendrite cfg response uid q = b"
proof -
  from assms obtain response uid where mem: "(response, uid) \<in> set chunk"
    and b: "b = run_benchmark dendrite cfg response uid q" and ok: "snd (snd b) \<noteq> None"
    by (auto simp: execute_benchmarks_def)
  from run_benchmark_cases[of dendrite cfg response uid q] b ok mem show ?thesis by fastforce
qed

lemma dom_score_chunk:
  "dom (score_chunk results brs) \<subseteq> dom results \<union> fst ` set brs"
  by (auto simp: score_chunk_def dom_assign_verdicts split: sum.splits)

lemma chunk_step_Inr:
  assumes "chunk_step dendrite cfg script net info chunk (results, g, probes) = Inr st'"
  shows "\<exists>jitter g1 q g2. randint 0 100 g = Inr (jitter, g1) \<and>
           script net (common_start info) (common_end info) (benchmark_query_diff cfg - jitter) g1
             = Inr (q, g2) \<and>
           st' = (score_chunk results (execute_benchmarks dendrite cfg chunk q), g2,
                  probes @ map (\<lambda>(response, uid). (response, uid, q)) chunk)"
proof (cases "randint 0 100 g")
  case (Inl e)
  with assms show ?thesis by (simp add: chunk_step_def)
next
  case (Inr jg)
  obtain jitter g1 where jg: "jg = (jitter, g1)" by (cases jg)
  show ?thesis
  proof (cases "script net (common_start info) (common_end info) (benchmark_query_diff cfg - jitter) g1")
    case (Inl e)
    with assms Inr jg show ?thesis by (simp add: chunk_step_def)
  next
    case Inr2: (Inr qg)
    obtain q g2 where qg: "qg = (q, g2)" by (cases qg)
    from assms Inr jg Inr2 qg have "st' = (score_chunk results (execute_benchmarks dendrite cfg chunk q), g2,
                  probes @ map (\<lambda>(response, uid). (response, uid, q)) chunk)"
      by (simp add: chunk_step_def)
    with Inr jg Inr2 qg show ?thesis by blast
  qed
qed

lemma chunk_step_probed:
  assumes "chunk_step dendrite cfg script net info chunk st = Inr st'" and "probed dendrite cfg st"
  shows "probed dendrite cfg st'"
proof -
  obtain results g probes where st: "st = (results, g, probes)" by (cases st)
  from assms(1) st chunk_step_Inr[of dendrite cfg script net info chunk results g probes st']
  obtain q g2 where
    st': "st' = (score_chunk results (execute_benchmarks dendrite cfg chunk q), g2,
                 probes @ map (\<lambda>(response, uid). (response, uid, q)) chunk)"
    by blast
  have "\<exists>response uid q' t r.
          (response, uid, q') \<in> set (probes @ map (\<lambda>(response, uid). (response, uid, q)) chunk) \<and>
          run_benchmark dendrite cfg response uid q' = (k, t, Some r)"
    if "k \<in> dom (score_chunk results (execute_benchmarks dendrite cfg chunk q))" for k
  proof -
    from that dom_score_chunk[of results "execute_benchmarks dendrite cfg chunk q"]
    consider "k \<in> dom results" | "k \<in> fst ` set (execute_benchmarks dendrite cfg chunk q)"
      by blast
    then show ?thesis
    proof cases
      case 1
      with assms(2) st show ?thesis by (fastforce simp: probed_def)
    next
      case 2
      then obtain b where "b \<in> set (execute_benchmarks dendrite cfg chunk q)" "k = fst b" by auto
      with execute_benchmarks_member[of b dendrite cfg chunk q] show ?thesis by fastforce
    qed
  qed
  with st' show ?thesis by (simp add: probed_def)
qed

lemma label_step_probed:
  assumes "label_step dendrite cfg net li st = Inr st'" and "probed dendrite cfg st"
  shows "probed dendrite cfg st'"
proof -
  obtain label info where li: "li = (label, info)" by (cases li)
  from assms(1) li have "for_each (chunk_step dendrite cfg (get_benchmark_query_script cfg net) net info)
          (responses info) st = Inr st'"
    by (simp add: label_step_def)
  then show ?thesis using assms(2)
    by (rule for_each_invariant) (rule chunk_step_probed)
qed

lemma network_pass_probed:
  assumes "network_pass dendrite cfg nm st = Inr st'" and "probed dendrite cfg st"
  shows "probed dendrite cfg st'"
proof -
  obtain net main_group where nm: "nm = (net, main_group)" by (cases nm)
  from assms(1) nm have "for_each (label_step dendrite cfg net) main_group st = Inr st'"
    by (simp add: network_pass_def)
  then show ?thesis using assms(2)
    by (rule for_each_invariant) (rule label_step_probed)
qed

lemma run_benchmarks_probed:
  assumes "run_benchmarks km dendrite cfg rs g = Inr st'"
  shows "probed dendrite cfg st'"
proof -
  from assms obtain grouped g' where
    "for_each (network_pass dendrite cfg) grouped (Map.empty, g', []) = Inr st'"
    by (auto simp: run_benchmarks_def split: sum.splits)
  moreover have "probed dendrite cfg (Map.empty, g', [])" by (simp add: probed_def)
  ultimately show ?thesis
    by (rule for_each_invariant) (rule network_pass_probed)
qed

section \<open>Probe outcomes\<close>

lemma execute_benchmarks_all_present:
  "b \<in> set (execute_benchmarks dendrite cfg chunk q) \<Longrightarrow> \<exists>u t r. b = (Some u, t, Some r)"
  using execute_benchmarks_member[of b dendrite cfg chunk q] by blast

lemma execute_benchmarks_filter_id_result:
  "execute_benchmarks dendrite cfg chunk q =
     filter (\<lambda>b. fst b \<noteq> None \<and> snd (snd b) \<noteq> None)
       (map (\<lambda>(response, uid). run_benchmark dendrite cfg response uid q) chunk)"
proof -
  have eq: "(snd (snd b) \<noteq> None) = (fst b \<noteq> None \<and> snd (snd b) \<noteq> None)"
    if "b \<in> set (map (\<lambda>(response, uid). run_benchmark dendrite cfg response uid q) chunk)" for b
  proof -
    from that obtain response uid where "b = run_benchmark dendrite cfg response uid q" by auto
    with run_benchmark_cases[of dendrite cfg response uid q] show ?thesis by auto
  qed
  show ?thesis
    unfolding execute_benchmarks_def by (rule filter_cong[OF refl]) (rule eq)
qed

lemma run_benchmark_latency:
  assumes "run_benchmark dendrite cfg response uid q = (Some u, t, Some r)"
  shows "dendrite (axon response) (network response) q (benchmark_timeout cfg) = Response t (Some r)"
  using assms by (simp add: run_benchmark_def split: sum.splits reply.splits option.splits)

lemma run_benchmarks_no_absent_key:
  assumes "run_benchmarks km dendrite cfg rs g = Inr (results, g', probes)"
  shows "None \<notin> dom results"
proof
  assume "None \<in> dom results"
  with run_benchmarks_probed[OF assms] obtain response uid q t r where
    "run_benchmark dendrite cfg response uid q = (None, t, Some r)"
    by (fastforce simp: probed_def)
  with run_benchmark_cases[of dendrite cfg response uid q] show False by auto
qed

text \<open>
  C10 as stated fails: a reply whose \<open>process_time\<close> is \<open>None\<close> and whose output is present gives
  an outcome with the responder id and the result but no latency; the outcome passes the
  filter on the result, and the responder's verdict has the latency \<open>None\<close>.
\<close>

theorem probe_outcome_without_latency:
  "run_benchmark no_latency_dendrite example_config (claim ''r1'' ''bitcoin'' 1000 21000) [1]
       query_11000
     = (Some 1, None, Some ''X'') \<and>
   execute_benchmarks no_latency_dendrite example_config
       [(claim ''r1'' ''bitcoin'' 1000 21000, [1])] query_11000
     = [(Some 1, None, Some ''X'')] \<and>
   run_benchmarks one_cluster no_latency_dendrite example_config
       [(claim ''r1'' ''bitcoin'' 1000 21000, [1])] zero_draws
     = Inr ([Some 1 \<mapsto> (None, True)], zero_draws,
            [(claim ''r1'' ''bitcoin'' 1000 21000, [1], query_11000)])"
proof -
  have r: "run_benchmark no_latency_dendrite example_config (claim ''r1'' ''bitcoin'' 1000 21000) [1]
       q = (Some 1, None, Some ''X'')" for q
    by (simp add: run_benchmark_def no_latency_dendrite_def claim_def)
  have e: "execute_benchmarks no_latency_dendrite example_config
       [(claim ''r1'' ''bitcoin'' 1000 21000, [1])] q = [(Some 1, None, Some ''X'')]" for q
    by (simp add: execute_benchmarks_def r)
  have g: "group_responses one_cluster example_config
              [(claim ''r1'' ''bitcoin'' 1000 21000, [1])] zero_draws =
     Inr ([(''bitcoin'', [(0, \<lparr>common_start = 1000, common_end = 21000,
                           responses = [[(claim ''r1'' ''bitcoin'' 1000 21000, [1])]]\<rparr>)])],
          zero_draws)"
    by (simp add: group_responses_def network_grouped_responses_def
        setdefault_append_def claim_def network_step_def one_cluster_def example_config_fields
        grouped_by_label_def group_step_def shuffle_def randbelow_def chunked_def set_group_def
        zero_draws_def)
  have j: "randint 0 100 zero_draws = Inr (0, zero_draws)"
    by (simp add: randint_def randbelow_def zero_draws_def)
  have sc: "default_benchmark_query_script ''bitcoin'' 1000 21000 d zero_draws
              = Inr (query_11000, zero_draws)" for d
    using script_a[of d] by (simp add: zero_draws_def)
  have s: "score_chunk Map.empty [(Some (1::int), None :: real option, Some ''X'')]
             = [Some 1 \<mapsto> (None, True)]"
    by (simp add: score_chunk_def most_common_result_def most_common_1_def Counter_def
        counter_add_def)
  have p: "run_benchmarks one_cluster no_latency_dendrite example_config
       [(claim ''r1'' ''bitcoin'' 1000 21000, [1])] zero_draws
     = Inr ([Some 1 \<mapsto> (None, True)], zero_draws,
            [(claim ''r1'' ''bitcoin'' 1000 21000, [1], query_11000)])"
    by (simp add: run_benchmarks_def g network_pass_def label_step_def chunk_step_def j
        example_config_fields sc e s)
  from r[of query_11000] e[of query_11000] p show ?thesis by blast
qed

text \<open>
  C10, amended. An outcome of \<open>run_benchmark\<close> is the failure triple, or it has the responder
  id and the result, and its latency is the \<open>process_time\<close> of the reply, present or not; the
  outcomes that \<open>execute_benchmarks\<close> keeps have the id and the result, so that filtering on
  the result alone is filtering on the id and the result; and the verdict map of a pass that
  returns has no entry under the absent id \<open>None\<close>.
\<close>

theorem probe_outcomes_id_and_result_together:
  "(run_benchmark dendrite cfg response uid q = (None, None, None) \<or>
    (\<exists>u t r. run_benchmark dendrite cfg response uid q = (Some u, t, Some r))) \<and>
   (\<forall>u t r. run_benchmark dendrite cfg response uid q = (Some u, t, Some r) \<longrightarrow>
       dendrite (axon response) (network response) q (benchmark_timeout cfg)
         = Response t (Some r)) \<and>
   (\<forall>b\<in>set (execute_benchmarks dendrite cfg chunk q). \<exists>u t r. b = (Some u, t, Some r)) \<and>
   execute_benchmarks dendrite cfg chunk q =
     filter (\<lambda>b. fst b \<noteq> None \<and> snd (snd b) \<noteq> None)
       (map (\<lambda>(response, uid). run_benchmark dendrite cfg response uid q) chunk) \<and>
   (\<forall>results g' probes. run_benchmarks km dendrite cfg rs g = Inr (results, g', probes)
        \<longrightarrow> None \<notin> dom results)"
proof (intro conjI)
  show "run_benchmark dendrite cfg response uid q = (None, None, None) \<or>
    (\<exists>u t r. run_benchmark dendrite cfg response uid q = (Some u, t, Some r))"
    using run_benchmark_cases[of dendrite cfg response uid q] by blast
  show "\<forall>u t r. run_benchmark dendrite cfg response uid q = (Some u, t, Some r) \<longrightarrow>
       dendrite (axon response) (network response) q (benchmark_timeout cfg)
         = Response t (Some r)"
  proof (intro allI impI)
    fix u t r
    assume "run_benchmark dendrite cfg response uid q = (Some u, t, Some r)"
    then show "dendrite (axon response) (network response) q (benchmark_timeout cfg)
                 = Response t (Some r)"
      by (rule run_benchmark_latency)
  qed
  show "\<forall>b\<in>set (execute_benchmarks dendrite cfg chunk q). \<exists>u t r. b = (Some u, t, Some r)"
    using execute_benchmarks_all_present by blast
  show "execute_benchmarks dendrite cfg chunk q =
     filter (\<lambda>b. fst b \<noteq> None \<and> snd (snd b) \<noteq> None)
       (map (\<lambda>(response, uid). run_benchmark dendrite cfg response uid q) chunk)"
    by (rule execute_benchmarks_filter_id_result)
  show "\<forall>results g' probes. run_benchmarks km dendrite cfg rs g = Inr (results, g', probes)
        \<longrightarrow> None \<notin> dom results"
    using run_benchmarks_no_absent_key by blast
qed

theorem probe_outcomes_pass_a:
  "run_benchmark pass_a_dendrite example_config (claim ''r2'' ''bitcoin'' 1000 21000) [2] query_11000
     = (None, None, None) \<and>
   run_benchmark pass_a_dendrite example_config (claim ''r1'' ''bitcoin'' 1000 21000) [1] query_11000
     = (Some 1, Some 50, Some ''X'') \<and>
   pass_a_dendrite (axon (claim ''r1'' ''bitcoin'' 1000 21000))
       (network (claim ''r1'' ''bitcoin'' 1000 21000)) query_11000 (benchmark_timeout example_config)
     = Response (Some 50) (Some ''X'') \<and>
   run_benchmarks one_cluster pass_a_dendrite example_config pass_a_responses (\<lambda>_. 0) =
     Inr ([Some 3 \<mapsto> (Some 9999, True), Some 1 \<mapsto> (Some 50, False)], (\<lambda>_. 0),
          [(claim ''r2'' ''bitcoin'' 1000 21000, [2], query_11000),
           (claim ''r3'' ''bitcoin'' 1000 21000, [3], query_11000),
           (claim ''r1'' ''bitcoin'' 1000 21000, [1], query_11000)]) \<and>
   None \<notin> dom [Some 3 \<mapsto> (Some 9999::real option, True), Some (1::int) \<mapsto> (Some 50, False)]"
proof (intro conjI)
  note inst = probe_outcomes_id_and_result_together[where dendrite = pass_a_dendrite
      and cfg = example_config and response = "claim ''r1'' ''bitcoin'' 1000 21000"
      and uid = "[1]" and q = query_11000 and km = one_cluster and rs = pass_a_responses
      and g = "\<lambda>_. 0"]
  show "run_benchmark pass_a_dendrite example_config (claim ''r2'' ''bitcoin'' 1000 21000) [2] query_11000
     = (None, None, None)"
    by (simp add: run_benchmark_def pass_a_dendrite_def claim_def)
  show r1: "run_benchmark pass_a_dendrite example_config (claim ''r1'' ''bitcoin'' 1000 21000) [1]
     query_11000 = (Some 1, Some 50, Some ''X'')"
    by (simp add: run_benchmark_def pass_a_dendrite_def claim_def)
  from inst r1
  show "pass_a_dendrite (axon (claim ''r1'' ''bitcoin'' 1000 21000))
       (network (claim ''r1'' ''bitcoin'' 1000 21000)) query_11000 (benchmark_timeout example_config)
     = Response (Some 50) (Some ''X'')"
    by blast
  show p: "run_benchmarks one_cluster pass_a_dendrite example_config pass_a_responses (\<lambda>_. 0) =
     Inr ([Some 3 \<mapsto> (Some 9999, True), Some 1 \<mapsto> (Some 50, False)], (\<lambda>_. 0),
          [(claim ''r2'' ''bitcoin'' 1000 21000, [2], query_11000),
           (claim ''r3'' ''bitcoin'' 1000 21000, [3], query_11000),
           (claim ''r1'' ''bitcoin'' 1000 21000, [1], query_11000)])"
    by (rule pass_a)
  from inst p
  show "None \<notin> dom [Some 3 \<mapsto> (Some 9999::real option, True), Some (1::int) \<mapsto> (Some 50, False)]"
    by blast
qed

section \<open>Failed probes\<close>

lemma execute_benchmarks_drop_failed:
  "execute_benchmarks dendrite cfg
     (filter (\<lambda>(response, uid). run_benchmark dendrite cfg response uid q \<noteq> (None, None, None)) chunk) q
   = execute_benchmarks dendrite cfg chunk q"
proof (induction chunk)
  case Nil
  show ?case by simp
next
  case (Cons x chunk)
  obtain response uid where x: "x = (response, uid)" by (cases x)
  from Cons x show ?case by (auto simp: execute_benchmarks_def)
qed

lemma execute_benchmarks_all_failed:
  assumes "\<forall>(response, uid)\<in>set chunk. run_benchmark dendrite cfg response uid q = (None, None, None)"
  shows "execute_benchmarks dendrite cfg chunk q = []"
  using assms by (auto simp: execute_benchmarks_def filter_empty_conv)

lemma no_verdict_without_success:
  assumes run: "run_benchmarks km dendrite cfg rs g = Inr (results, g', probes)"
    and failed: "\<forall>(response, uid, q)\<in>set probes. uid_item uid = Inr u \<longrightarrow>
                   run_benchmark dendrite cfg response uid q = (None, None, None)"
  shows "results (Some u) = None"
proof (rule ccontr)
  assume "results (Some u) \<noteq> None"
  then have "Some u \<in> dom results" by auto
  with run_benchmarks_probed[OF run] obtain response uid q t r where
    mem: "(response, uid, q) \<in> set probes" and
    ok: "run_benchmark dendrite cfg response uid q = (Some u, t, Some r)"
    by (fastforce simp: probed_def)
  from run_benchmark_cases[of dendrite cfg response uid q] ok have "uid_item uid = Inr u" by auto
  with failed mem have "run_benchmark dendrite cfg response uid q = (None, None, None)" by fastforce
  with ok show False by simp
qed

lemma chunk_step_all_failed:
  assumes "randint 0 100 g = Inr (jitter, g1)"
    and "script net (common_start info) (common_end info) (benchmark_query_diff cfg - jitter) g1
           = Inr (q, g2)"
    and "\<forall>(response, uid)\<in>set chunk. run_benchmark dendrite cfg response uid q = (None, None, None)"
  shows "chunk_step dendrite cfg script net info chunk (results, g, probes) =
           Inr (results, g2, probes @ map (\<lambda>(response, uid). (response, uid, q)) chunk)"
  using assms(1,2) execute_benchmarks_all_failed[OF assms(3)]
  by (simp add: chunk_step_def score_chunk_def)

text \<open>
  C8. When a pass returns, a responder (identified by its uid \<open>u\<close>) all of whose probes
  failed has no entry in the verdict map; the outcomes that are scored contain no failed
  one, and the scored outcomes of a chunk are those of the chunk without its failed
  responders; a chunk all of whose probes failed has no outcome to score, and its step of
  the pass returns normally with the verdict map unchanged whenever the query for the chunk
  could be built.
\<close>

theorem failed_probes_give_no_verdict:
  "(\<forall>results g' probes.
      run_benchmarks km dendrite cfg rs g = Inr (results, g', probes) \<longrightarrow>
      (\<forall>(response, uid, q)\<in>set probes. uid_item uid = Inr u \<longrightarrow>
          run_benchmark dendrite cfg response uid q = (None, None, None)) \<longrightarrow>
      results (Some u) = None) \<and>
   (\<forall>b\<in>set (execute_benchmarks dendrite cfg chunk q). snd (snd b) \<noteq> None) \<and>
   execute_benchmarks dendrite cfg
     (filter (\<lambda>(response, uid). run_benchmark dendrite cfg response uid q \<noteq> (None, None, None))
        chunk) q
     = execute_benchmarks dendrite cfg chunk q \<and>
   ((\<forall>(response, uid)\<in>set chunk.
        run_benchmark dendrite cfg response uid q = (None, None, None)) \<longrightarrow>
    execute_benchmarks dendrite cfg chunk q = [] \<and>
    (\<forall>script net info results0 g0 probes0 jitter g1 g2.
        randint 0 100 g0 = Inr (jitter, g1) \<longrightarrow>
        script net (common_start info) (common_end info) (benchmark_query_diff cfg - jitter) g1
          = Inr (q, g2) \<longrightarrow>
        chunk_step dendrite cfg script net info chunk (results0, g0, probes0) =
          Inr (results0, g2, probes0 @ map (\<lambda>(response, uid). (response, uid, q)) chunk)))"
proof (intro conjI allI impI)
  fix results g' probes
  assume "run_benchmarks km dendrite cfg rs g = Inr (results, g', probes)"
    and "\<forall>(response, uid, q)\<in>set probes. uid_item uid = Inr u \<longrightarrow>
          run_benchmark dendrite cfg response uid q = (None, None, None)"
  then show "results (Some u) = None" by (rule no_verdict_without_success)
next
  show "\<forall>b\<in>set (execute_benchmarks dendrite cfg chunk q). snd (snd b) \<noteq> None"
    by (simp add: execute_benchmarks_def)
next
  show "execute_benchmarks dendrite cfg
     (filter (\<lambda>(response, uid). run_benchmark dendrite cfg response uid q \<noteq> (None, None, None))
        chunk) q
     = execute_benchmarks dendrite cfg chunk q"
    by (rule execute_benchmarks_drop_failed)
next
  assume "\<forall>(response, uid)\<in>set chunk.
        run_benchmark dendrite cfg response uid q = (None, None, None)"
  then show "execute_benchmarks dendrite cfg chunk q = []"
    by (rule execute_benchmarks_all_failed)
next
  fix script :: script and net and info :: group_info and results0 :: verdicts and g0 :: rng
    and probes0 :: "(discovery \<times> uid \<times> string) list" and jitter g1 g2
  assume "\<forall>(response, uid)\<in>set chunk.
        run_benchmark dendrite cfg response uid q = (None, None, None)"
    and "randint 0 100 g0 = Inr (jitter, g1)"
    and "script net (common_start info) (common_end info) (benchmark_query_diff cfg - jitter) g1
          = Inr (q, g2)"
  then show "chunk_step dendrite cfg script net info chunk (results0, g0, probes0) =
          Inr (results0, g2, probes0 @ map (\<lambda>(response, uid). (response, uid, q)) chunk)"
    by (simp add: chunk_step_all_failed)
qed

theorem failed_probes_pass_a:
  "run_benchmarks one_cluster pass_a_dendrite example_config pass_a_responses (\<lambda>_. 0) =
     Inr ([Some 3 \<mapsto> (Some 9999, True), Some 1 \<mapsto> (Some 50, False)], (\<lambda>_. 0),
          [(claim ''r2'' ''bitcoin'' 1000 21000, [2], query_11000),
           (claim ''r3'' ''bitcoin'' 1000 21000, [3], query_11000),
           (claim ''r1'' ''bitcoin'' 1000 21000, [1], query_11000)]) \<and>
   run_benchmark pass_a_dendrite example_config (claim ''r2'' ''bitcoin'' 1000 21000) [2] query_11000
     = (None, None, None) \<and>
   [Some 3 \<mapsto> (Some 9999::real option, True), Some (1::int) \<mapsto> (Some 50, False)] (Some 2) = None \<and>
   chunk_step pass_a_dendrite example_config default_benchmark_query_script ''bitcoin''
       \<lparr>common_start = 1000, common_end = 21000,
        responses = [[(claim ''r2'' ''bitcoin'' 1000 21000, [2])]]\<rparr>
       [(claim ''r2'' ''bitcoin'' 1000 21000, [2])] (Map.empty, (\<lambda>_. 0), [])
     = Inr (Map.empty, (\<lambda>_. 0), [(claim ''r2'' ''bitcoin'' 1000 21000, [2], query_11000)])"
proof -
  note inst = failed_probes_give_no_verdict[of one_cluster pass_a_dendrite example_config
      pass_a_responses "\<lambda>_. 0" 2 "[(claim ''r2'' ''bitcoin'' 1000 21000, [2])]" query_11000]
  have r2: "run_benchmark pass_a_dendrite example_config (claim ''r2'' ''bitcoin'' 1000 21000) [2]
              query_11000 = (None, None, None)"
    by (simp add: run_benchmark_def pass_a_dendrite_def claim_def)
  have probes: "\<forall>(response, uid, q)\<in>set
          [(claim ''r2'' ''bitcoin'' 1000 21000, [2], query_11000),
           (claim ''r3'' ''bitcoin'' 1000 21000, [3], query_11000),
           (claim ''r1'' ''bitcoin'' 1000 21000, [1], query_11000)].
        uid_item uid = Inr 2 \<longrightarrow>
          run_benchmark pass_a_dendrite example_config response uid q = (None, None, None)"
    using r2 by simp
  from inst pass_a probes
  have a: "[Some 3 \<mapsto> (Some 9999::real option, True), Some (1::int) \<mapsto> (Some 50, False)] (Some 2) = None"
    by blast
  have j: "randint 0 100 (\<lambda>_. 0) = Inr (0, (\<lambda>_. 0))"
    by (simp add: randint_def randbelow_def)
  have s: "default_benchmark_query_script ''bitcoin''
             (common_start \<lparr>common_start = 1000, common_end = 21000,
                responses = [[(claim ''r2'' ''bitcoin'' 1000 21000, [2])]]\<rparr>)
             (common_end \<lparr>common_start = 1000, common_end = 21000,
                responses = [[(claim ''r2'' ''bitcoin'' 1000 21000, [2])]]\<rparr>)
             (benchmark_query_diff example_config - 0) (\<lambda>_. 0) = Inr (query_11000, (\<lambda>_. 0))"
    by (simp add: script_a)
  have all: "\<forall>(response, uid)\<in>set [(claim ''r2'' ''bitcoin'' 1000 21000, [2])].
        run_benchmark pass_a_dendrite example_config response uid query_11000 = (None, None, None)"
    using r2 by simp
  from inst all j s
  have b: "chunk_step pass_a_dendrite example_config default_benchmark_query_script ''bitcoin''
       \<lparr>common_start = 1000, common_end = 21000,
        responses = [[(claim ''r2'' ''bitcoin'' 1000 21000, [2])]]\<rparr>
       [(claim ''r2'' ''bitcoin'' 1000 21000, [2])] (Map.empty, (\<lambda>_. 0), [])
     = Inr (Map.empty, (\<lambda>_. 0), [] @ map (\<lambda>(response, uid). (response, uid, query_11000))
              [(claim ''r2'' ''bitcoin'' 1000 21000, [2])])"
    by blast
  from pass_a r2 a b show ?thesis by simp
qed

section \<open>The cohort builder\<close>

lemma shuffle_loop_mset:
  "n < length x \<or> n = 0 \<Longrightarrow> mset (fst (shuffle_loop n x g)) = mset x"
proof (induction n arbitrary: x g)
  case 0
  show ?case by simp
next
  case (Suc n)
  then have len: "Suc n < length x" by simp
  obtain j g' where r: "randbelow (Suc (Suc n)) g = (j, g')" by (cases "randbelow (Suc (Suc n)) g")
  then have "j < Suc (Suc n)" by (auto simp: randbelow_def)
  with len have j: "j < length x" by simp
  let ?x' = "x[Suc n := x ! j, j := x ! Suc n]"
  from j len have swap: "mset ?x' = mset x" by (rule mset_swap)
  from len have "n < length ?x' \<or> n = 0" by simp
  from Suc.IH[OF this] swap r show ?case by simp
qed

lemma shuffle_mset: "mset (fst (shuffle x g)) = mset x"
  unfolding shuffle_def by (rule shuffle_loop_mset) (cases x; simp)

lemma shuffle_set: "shuffle x g = (y, g') \<Longrightarrow> set y = set x"
  using shuffle_mset[of x g] by (auto dest: mset_eq_setD)

lemma concat_slices:
  "concat (map (\<lambda>k. take n (drop (k * n) xs)) [0..<m]) = take (m * n) xs"
proof (induction m)
  case 0
  show ?case by simp
next
  case (Suc m)
  have "take (Suc m * n) xs = take (m * n + n) xs" by (simp add: add.commute)
  also have "\<dots> = take (m * n) xs @ take n (drop (m * n) xs)" by (rule take_add)
  finally show ?case using Suc by simp
qed

lemma slices_cover: "0 < n \<Longrightarrow> (len::nat) \<le> ((len + n - 1) div n) * n"
proof -
  assume n: "0 < n"
  have "len + n - 1 = ((len + n - 1) div n) * n + (len + n - 1) mod n" by simp
  moreover from n have "(len + n - 1) mod n < n" by simp
  ultimately show ?thesis using n by linarith
qed

lemma chunked_concat:
  assumes "0 < chunk_size"
  shows "\<exists>cks. chunked chunk_size grp = Inr cks \<and> concat cks = grp"
proof -
  from assms have n: "0 < nat chunk_size" by simp
  have "concat (map (\<lambda>k. take (nat chunk_size) (drop (k * nat chunk_size) grp))
                  [0..<(length grp + nat chunk_size - 1) div nat chunk_size]) = grp"
    using slices_cover[OF n, of "length grp"] by (simp add: concat_slices)
  with assms show ?thesis by (simp add: chunked_def)
qed

lemma py_min_Min: "xs \<noteq> [] \<Longrightarrow> py_min xs = Inr (Min (set xs))"
proof (cases xs)
  case Nil
  then show "xs \<noteq> [] \<Longrightarrow> ?thesis" by simp
next
  case (Cons a list)
  have "fold min list a = Min (set (a # list))" by (rule Min.set_eq_fold[symmetric])
  with Cons show ?thesis by (simp del: list.set)
qed

lemma set_update_cases:
  "p \<in> set (AList.update k v d) \<Longrightarrow> p = (k, v) \<or> p \<in> set d"
  by (induction d) (auto split: if_splits)

lemma setdefault_append_member:
  assumes "(k', vs) \<in> set (setdefault_append k v d)"
  shows "(k', vs) \<in> set d \<or> (k' = k \<and> vs = (case map_of d k of None \<Rightarrow> [] | Some ws \<Rightarrow> ws) @ [v])"
  using set_update_cases[OF assms[unfolded setdefault_append_def]] by auto

lemma network_grouped_responses_group_by:
  "network_grouped_responses rs = group_by (\<lambda>(resp, uid). network resp) id rs"
  unfolding network_grouped_responses_def group_by_def
  by (rule arg_cong[where f = "\<lambda>f. fold f rs []"]) (auto simp: fun_eq_iff)

lemma grouped_by_label_group_by:
  "grouped_by_label labels items = group_by fst snd (zip labels items)"
  unfolding grouped_by_label_def group_by_def
  by (rule arg_cong[where f = "\<lambda>f. fold f (zip labels items) []"]) (auto simp: fun_eq_iff)

lemma group_by_snoc:
  "group_by kf vf (xs @ [x]) = setdefault_append (kf x) (vf x) (group_by kf vf xs)"
  by (simp add: group_by_def)

lemma map_of_setdefault_append:
  "map_of (setdefault_append k v d) k' =
     (if k' = k then Some ((case map_of d k of None \<Rightarrow> [] | Some vs \<Rightarrow> vs) @ [v]) else map_of d k')"
  by (simp add: setdefault_append_def update_conv')

lemma distinct_keys_setdefault_append:
  "distinct (map fst d) \<Longrightarrow> distinct (map fst (setdefault_append k v d))"
  by (simp add: setdefault_append_def distinct_update)

lemma distinct_keys_group_by: "distinct (map fst (group_by kf vf xs))"
proof (induction xs rule: rev_induct)
  case Nil
  show ?case by (simp add: group_by_def)
next
  case (snoc x xs)
  then show ?case by (simp add: group_by_snoc distinct_keys_setdefault_append)
qed

lemma map_of_group_by:
  "map_of (group_by kf vf xs) k =
     (if \<exists>x\<in>set xs. kf x = k then Some (map vf (filter (\<lambda>x. kf x = k) xs)) else None)"
proof (induction xs rule: rev_induct)
  case Nil
  show ?case by (simp add: group_by_def)
next
  case (snoc x xs)
  have empty: "filter (\<lambda>y. kf y = kf x) xs = []" if "\<not> (\<exists>y\<in>set xs. kf y = kf x)"
    using that by (simp add: filter_empty_conv)
  from snoc show ?case
    by (auto simp: group_by_snoc map_of_setdefault_append empty)
qed

lemma group_by_member:
  assumes "(k, vs) \<in> set (group_by kf vf xs)"
  shows "vs = map vf (filter (\<lambda>x. kf x = k) xs) \<and> vs \<noteq> []"
proof -
  from assms have "map_of (group_by kf vf xs) k = Some vs"
    by (simp add: distinct_keys_group_by)
  then have ex: "\<exists>x\<in>set xs. kf x = k" and vs: "vs = map vf (filter (\<lambda>x. kf x = k) xs)"
    by (auto simp: map_of_group_by split: if_splits)
  from ex have "filter (\<lambda>x. kf x = k) xs \<noteq> []" by (simp add: filter_empty_conv)
  with vs show ?thesis by simp
qed

lemma network_grouped_responses_member:
  assumes "(net, items) \<in> set (network_grouped_responses rs)"
  shows "items = filter (\<lambda>(resp, uid). network resp = net) rs \<and> items \<noteq> []"
proof -
  note m = group_by_member[OF assms[unfolded network_grouped_responses_group_by]]
  from m have ne: "items \<noteq> []" by (rule conjunct2)
  from m have "items = map id (filter (\<lambda>x. (case x of (resp, uid) \<Rightarrow> network resp) = net) rs)"
    by (rule conjunct1)
  also have "\<dots> = filter (\<lambda>x. (case x of (resp, uid) \<Rightarrow> network resp) = net) rs" by simp
  also have "\<dots> = filter (\<lambda>(resp, uid). network resp = net) rs"
    by (rule filter_cong[OF refl]) auto
  finally show ?thesis using ne by blast
qed

lemma grouped_by_label_member:
  assumes "(label, grp) \<in> set (grouped_by_label labels items)"
  shows "grp \<noteq> [] \<and> set grp \<subseteq> set items"
proof -
  from group_by_member[OF assms[unfolded grouped_by_label_group_by]]
  have grp: "grp = map snd (filter (\<lambda>x. fst x = label) (zip labels items))" and ne: "grp \<noteq> []"
    by blast+
  from grp have "set grp \<subseteq> set items" by (auto dest: set_zip_rightD)
  with ne show ?thesis by simp
qed

lemma set_group_member:
  assumes "(net', d') \<in> set (set_group net label info ng)" and "(label', info') \<in> set d'"
  shows "(net', d') \<in> set ng \<or>
         (net' = net \<and> (info' = info \<or> (\<exists>d0. (net, d0) \<in> set ng \<and> (label', info') \<in> set d0)))"
proof -
  let ?d0 = "case map_of ng net of None \<Rightarrow> [] | Some d \<Rightarrow> d"
  from set_update_cases[OF assms(1)[unfolded set_group_def]]
  consider "(net', d') \<in> set ng" | "net' = net" "d' = AList.update label info ?d0" by auto
  then show ?thesis
  proof cases
    case 1
    then show ?thesis by simp
  next
    case 2
    with assms(2) have "(label', info') \<in> set (AList.update label info ?d0)" by simp
    from set_update_cases[OF this] consider "info' = info" | "(label', info') \<in> set ?d0" by auto
    then show ?thesis
    proof cases
      case 1
      with \<open>net' = net\<close> show ?thesis by simp
    next
      case 2
      then obtain d0 where "map_of ng net = Some d0" "(label', info') \<in> set d0"
        by (cases "map_of ng net") auto
      then have "(net, d0) \<in> set ng" by (auto dest: map_of_SomeD)
      with \<open>net' = net\<close> \<open>(label', info') \<in> set d0\<close> show ?thesis by blast
    qed
  qed
qed

lemma group_step_ok:
  assumes step: "group_step chunk_size net (label, group0) st = Inr st'"
    and cs: "0 < chunk_size" and ne: "group0 \<noteq> []"
    and sub: "set group0 \<subseteq> {x \<in> set rs. network (fst x) = net}"
    and ok: "groups_ok rs st"
  shows "groups_ok rs st'"
proof -
  obtain ng g where st: "st = (ng, g)" by (cases st)
  obtain grp g1 where sh: "shuffle group0 g = (grp, g1)" by (cases "shuffle group0 g")
  from shuffle_set[OF sh] have grp_set: "set grp = set group0" .
  with ne have grp_ne: "grp \<noteq> []" by auto
  from chunked_concat[OF cs, of grp] obtain cks where
    cks: "chunked chunk_size grp = Inr cks" "concat cks = grp" by blast
  let ?starts = "map (\<lambda>(resp, _). start_block_height resp) grp"
  let ?ends = "map (\<lambda>(resp, _). block_height resp) grp"
  from grp_ne have mins: "py_min ?starts = Inr (Min (set ?starts))" "py_min ?ends = Inr (Min (set ?ends))"
    by (simp_all add: py_min_Min)
  let ?info = "\<lparr>common_start = Min (set ?starts), common_end = Min (set ?ends), responses = cks\<rparr>"
  from step st sh cks mins have st': "st' = (set_group net label ?info ng, g1)"
    by (simp add: group_step_def)
  have new: "cohort_ok rs net ?info"
    using cks grp_ne grp_set sub by (simp add: cohort_ok_def)
  show ?thesis
    unfolding groups_ok_def
  proof (intro allI impI)
    fix net' d' label' info'
    assume "(net', d') \<in> set (fst st')" and "(label', info') \<in> set d'"
    with st' have "(net', d') \<in> set (set_group net label ?info ng)" by simp
    from set_group_member[OF this \<open>(label', info') \<in> set d'\<close>] new ok st
      \<open>(label', info') \<in> set d'\<close>
    show "cohort_ok rs net' info'" unfolding groups_ok_def by fastforce
  qed
qed

lemma network_step_ok:
  assumes step: "network_step km cfg (net, items) st = Inr st'"
    and cs: "0 < benchmark_query_chunk_size cfg"
    and mem: "(net, items) \<in> set (network_grouped_responses rs)"
    and ok: "groups_ok rs st"
  shows "groups_ok rs st'"
proof (cases "km (benchmark_cluster_size cfg)
             (map (\<lambda>(resp, _). (start_block_height resp, block_height resp)) items)")
  case (Inl e)
  with step have "st' = st" by (simp add: network_step_def split: if_splits)
  with ok show ?thesis by simp
next
  case (Inr labels)
  from network_grouped_responses_member[OF mem]
  have items: "set items \<subseteq> {x \<in> set rs. network (fst x) = net}" by auto
  from step Inr have "for_each (group_step (benchmark_query_chunk_size cfg) net)
            (grouped_by_label labels items) st = Inr st'"
    by (simp add: network_step_def)
  then show ?thesis using ok
  proof (rule for_each_invariant)
    fix lg s s'
    assume lg: "lg \<in> set (grouped_by_label labels items)" and s: "groups_ok rs s"
      and b: "group_step (benchmark_query_chunk_size cfg) net lg s = Inr s'"
    obtain label grp where [simp]: "lg = (label, grp)" by (cases lg)
    from grouped_by_label_member[of label grp labels items] lg items
    have "grp \<noteq> []" "set grp \<subseteq> {x \<in> set rs. network (fst x) = net}" by auto
    with b cs s show "groups_ok rs s'" by (auto intro: group_step_ok)
  qed
qed

lemma group_responses_ok:
  assumes "group_responses km cfg rs g = Inr st'" and "0 < benchmark_query_chunk_size cfg"
  shows "groups_ok rs st'"
proof -
  from assms(1) have "for_each (network_step km cfg) (network_grouped_responses rs) ([], g) = Inr st'"
    by (simp add: group_responses_def)
  moreover have "groups_ok rs ([], g)" by (simp add: groups_ok_def)
  ultimately show ?thesis
  proof (rule for_each_invariant)
    fix ni s s'
    assume a: "ni \<in> set (network_grouped_responses rs)" "groups_ok rs s"
      "network_step km cfg ni s = Inr s'"
    obtain net items where "ni = (net, items)" by (cases ni)
    with a assms(2) show "groups_ok rs s'" by (auto intro: network_step_ok)
  qed
qed

lemma group_mixed:
  "group_responses one_cluster example_config mixed_responses zero_draws =
     Inr ([(''bitcoin'', [(0, mixed_cohort)])], zero_draws)"
  by (simp add: group_responses_def network_grouped_responses_def mixed_responses_def
      setdefault_append_def claim_def network_step_def one_cluster_def example_config_fields
      grouped_by_label_def group_step_def shuffle_def randbelow_def chunked_def set_group_def
      numeral_2_eq_2 zero_draws_def mixed_cohort_def)

lemma Min_le_member:
  assumes "x \<in> set xs"
  shows "Min (f ` set xs) \<le> f x"
  using assms by simp

text \<open>
  C3. With a positive chunk size, every cohort that \<open>group_responses\<close> returns has at least
  one member, its members are responders of its network, \<open>common_start\<close> is the minimum of
  the members' start bounds and \<open>common_end\<close> the minimum of their end bounds; so
  \<open>common_start \<le> member.start\<close> and \<open>common_end \<le> member.end\<close> for every member.
\<close>

theorem cohort_bounds_are_minima:
  assumes "group_responses km cfg rs g = Inr (new_groups, g')"
    and "0 < benchmark_query_chunk_size cfg"
    and "(net, main_group) \<in> set new_groups"
    and "(label, info) \<in> set main_group"
  shows "concat (responses info) \<noteq> [] \<and>
         set (concat (responses info)) \<subseteq> {x \<in> set rs. network (fst x) = net} \<and>
         common_start info =
           Min ((\<lambda>(resp, _). start_block_height resp) ` set (concat (responses info))) \<and>
         common_end info =
           Min ((\<lambda>(resp, _). block_height resp) ` set (concat (responses info))) \<and>
         (\<forall>(resp, uid)\<in>set (concat (responses info)).
             common_start info \<le> start_block_height resp \<and> common_end info \<le> block_height resp)"
proof -
  from group_responses_ok[OF assms(1,2)] assms(3,4) have ok: "cohort_ok rs net info"
    by (auto simp: groups_ok_def)
  have "common_start info \<le> start_block_height resp \<and> common_end info \<le> block_height resp"
    if "(resp, uid) \<in> set (concat (responses info))" for resp uid
  proof -
    from ok have "common_start info =
        Min ((\<lambda>(resp, _). start_block_height resp) ` set (concat (responses info)))"
      and "common_end info =
        Min ((\<lambda>(resp, _). block_height resp) ` set (concat (responses info)))"
      by (simp_all add: cohort_ok_def)
    with Min_le_member[OF that, of "\<lambda>(resp, _). start_block_height resp"]
      Min_le_member[OF that, of "\<lambda>(resp, _). block_height resp"]
    show ?thesis by simp
  qed
  with ok show ?thesis unfolding cohort_ok_def by blast
qed

theorem cohort_bounds_mixed:
  "group_responses one_cluster example_config mixed_responses zero_draws =
     Inr ([(''bitcoin'', [(0, mixed_cohort)])], zero_draws) \<and>
   0 < benchmark_query_chunk_size example_config \<and>
   concat (responses mixed_cohort) =
     [(claim ''r2'' ''bitcoin'' 50 300, [2]), (claim ''r1'' ''bitcoin'' 100 200, [1])] \<and>
   common_start mixed_cohort = 50 \<and>
   common_start mixed_cohort =
     Min ((\<lambda>(resp, _). start_block_height resp) ` set (concat (responses mixed_cohort))) \<and>
   common_end mixed_cohort = 200 \<and>
   common_end mixed_cohort =
     Min ((\<lambda>(resp, _). block_height resp) ` set (concat (responses mixed_cohort))) \<and>
   common_start mixed_cohort \<le> start_block_height (claim ''r1'' ''bitcoin'' 100 200) \<and>
   common_end mixed_cohort \<le> block_height (claim ''r1'' ''bitcoin'' 100 200) \<and>
   common_start mixed_cohort \<le> start_block_height (claim ''r2'' ''bitcoin'' 50 300) \<and>
   common_end mixed_cohort \<le> block_height (claim ''r2'' ''bitcoin'' 50 300)"
proof -
  have cs: "0 < benchmark_query_chunk_size example_config" by (simp add: example_config_fields)
  have m: "(''bitcoin'', [(0, mixed_cohort)]) \<in> set [(''bitcoin'', [(0::int, mixed_cohort)])]"
    and l: "(0, mixed_cohort) \<in> set [(0::int, mixed_cohort)]" by simp_all
  note inst = cohort_bounds_are_minima[OF group_mixed cs m l]
  have "concat (responses mixed_cohort) =
     [(claim ''r2'' ''bitcoin'' 50 300, [2]), (claim ''r1'' ''bitcoin'' 100 200, [1])]"
    "common_start mixed_cohort = 50" "common_end mixed_cohort = 200"
    by (simp_all add: mixed_cohort_def)
  moreover have "(claim ''r1'' ''bitcoin'' 100 200, [1]) \<in> set (concat (responses mixed_cohort))"
    "(claim ''r2'' ''bitcoin'' 50 300, [2]) \<in> set (concat (responses mixed_cohort))"
    by (simp_all add: mixed_cohort_def)
  ultimately show ?thesis using inst group_mixed cs by blast
qed

text \<open>
  C2 as stated fails: in the cohort of the claims \<open>[100, 200]\<close> and \<open>[50, 300]\<close> the safe
  interval is \<open>[50, 200]\<close>, and it is not within \<open>[100, 200]\<close>.
\<close>

theorem safe_interval_mixed_counterexample:
  "group_responses one_cluster example_config mixed_responses zero_draws =
     Inr ([(''bitcoin'',
            [(0, \<lparr>common_start = 50, common_end = 200,
                  responses = [[(claim ''r2'' ''bitcoin'' 50 300, [2]),
                                (claim ''r1'' ''bitcoin'' 100 200, [1])]]\<rparr>)])], zero_draws) \<and>
   \<not> start_block_height (claim ''r1'' ''bitcoin'' 100 200) \<le> 50"
  using group_mixed by (simp add: mixed_cohort_def claim_def)

text \<open>
  C2, amended. For every cohort and every member, \<open>common_end \<le> member.end\<close> and
  \<open>common_start \<le> member.start\<close>: the upper end of the safe interval lies within the
  member's claim, and its lower end lies at or below the member's start; the safe interval
  is within the member's claim exactly when the member's start is the least of the cohort.
\<close>

theorem safe_interval_within_claims_above:
  assumes "group_responses km cfg rs g = Inr (new_groups, g')"
    and "0 < benchmark_query_chunk_size cfg"
    and "(net, main_group) \<in> set new_groups"
    and "(label, info) \<in> set main_group"
    and "(resp, uid) \<in> set (concat (responses info))"
  shows "common_end info \<le> block_height resp \<and>
         common_start info \<le> start_block_height resp \<and>
         (start_block_height resp \<le> common_start info \<longleftrightarrow>
            (\<forall>(resp', uid')\<in>set (concat (responses info)).
                start_block_height resp \<le> start_block_height resp'))"
proof -
  let ?ms = "set (concat (responses info))"
  from group_responses_ok[OF assms(1,2)] assms(3,4) have ok: "cohort_ok rs net info"
    by (auto simp: groups_ok_def)
  then have st: "common_start info = Min ((\<lambda>(resp, _). start_block_height resp) ` ?ms)"
    and en: "common_end info = Min ((\<lambda>(resp, _). block_height resp) ` ?ms)"
    by (simp_all add: cohort_ok_def)
  from en Min_le_member[OF assms(5), of "\<lambda>(resp, _). block_height resp"]
  have 1: "common_end info \<le> block_height resp" by simp
  from st Min_le_member[OF assms(5), of "\<lambda>(resp, _). start_block_height resp"]
  have 2: "common_start info \<le> start_block_height resp" by simp
  have fin: "finite ((\<lambda>(resp, _). start_block_height resp) ` ?ms)" by (rule finite_imageI) simp
  from assms(5) have "?ms \<noteq> {}" by (metis empty_iff)
  then have ne: "(\<lambda>(resp, _). start_block_height resp) ` ?ms \<noteq> {}"
    by (simp only: image_is_empty not_False_eq_True)
  have 3: "start_block_height resp \<le> common_start info \<longleftrightarrow>
            (\<forall>(resp', uid')\<in>?ms. start_block_height resp \<le> start_block_height resp')"
    unfolding st Min_ge_iff[OF fin ne] by auto
  from 1 2 3 show ?thesis by blast
qed

theorem safe_interval_mixed_witness:
  "common_end mixed_cohort \<le> block_height (claim ''r2'' ''bitcoin'' 50 300) \<and>
   common_start mixed_cohort \<le> start_block_height (claim ''r2'' ''bitcoin'' 50 300) \<and>
   start_block_height (claim ''r2'' ''bitcoin'' 50 300) \<le> common_start mixed_cohort \<and>
   common_end mixed_cohort \<le> block_height (claim ''r1'' ''bitcoin'' 100 200) \<and>
   common_start mixed_cohort \<le> start_block_height (claim ''r1'' ''bitcoin'' 100 200) \<and>
   \<not> start_block_height (claim ''r1'' ''bitcoin'' 100 200) \<le> common_start mixed_cohort"
proof -
  have cs: "0 < benchmark_query_chunk_size example_config" by (simp add: example_config_fields)
  have m: "(''bitcoin'', [(0, mixed_cohort)]) \<in> set [(''bitcoin'', [(0::int, mixed_cohort)])]"
    and l: "(0, mixed_cohort) \<in> set [(0::int, mixed_cohort)]" by simp_all
  have r2: "(claim ''r2'' ''bitcoin'' 50 300, [2]) \<in> set (concat (responses mixed_cohort))"
    and r1: "(claim ''r1'' ''bitcoin'' 100 200, [1]) \<in> set (concat (responses mixed_cohort))"
    by (simp_all add: mixed_cohort_def)
  note i2 = safe_interval_within_claims_above[OF group_mixed cs m l r2]
  note i1 = safe_interval_within_claims_above[OF group_mixed cs m l r1]
  have "start_block_height (claim ''r2'' ''bitcoin'' 50 300) \<le> common_start mixed_cohort"
    by (simp add: mixed_cohort_def claim_def)
  moreover have "\<not> start_block_height (claim ''r1'' ''bitcoin'' 100 200) \<le> common_start mixed_cohort"
    by (simp add: mixed_cohort_def claim_def)
  ultimately show ?thesis using i1 i2 by blast
qed

section \<open>A network whose clustering fails\<close>

lemma filter_update_other_keys:
  "filter (\<lambda>(k', _). k' \<noteq> n) (AList.update k v d) =
     (if k = n then filter (\<lambda>(k', _). k' \<noteq> n) d
      else AList.update k v (filter (\<lambda>(k', _). k' \<noteq> n) d))"
  by (induction d) auto

lemma map_of_filter_other_keys:
  "k \<noteq> n \<Longrightarrow> map_of (filter (\<lambda>(k', _). k' \<noteq> n) d) k = map_of d k"
  by (induction d) auto

lemma filter_setdefault_append:
  "filter (\<lambda>(k', _). k' \<noteq> n) (setdefault_append k v d) =
     (if k = n then filter (\<lambda>(k', _). k' \<noteq> n) d
      else setdefault_append k v (filter (\<lambda>(k', _). k' \<noteq> n) d))"
  by (simp add: setdefault_append_def filter_update_other_keys map_of_filter_other_keys)

lemma group_by_filter:
  "group_by kf vf (filter (\<lambda>x. kf x \<noteq> n) xs) = filter (\<lambda>(k, _). k \<noteq> n) (group_by kf vf xs)"
proof (induction xs rule: rev_induct)
  case Nil
  show ?case by (simp add: group_by_def)
next
  case (snoc x xs)
  then show ?case by (simp add: group_by_snoc filter_setdefault_append)
qed

lemma network_grouped_responses_filter:
  "network_grouped_responses (filter (\<lambda>(resp, uid). network resp \<noteq> net) rs) =
     filter (\<lambda>(k, _). k \<noteq> net) (network_grouped_responses rs)"
proof -
  have "filter (\<lambda>(resp, uid). network resp \<noteq> net) rs
          = filter (\<lambda>x. (case x of (resp, uid) \<Rightarrow> network resp) \<noteq> net) rs"
    by (rule filter_cong[OF refl]) auto
  then show ?thesis
    by (simp only: network_grouped_responses_group_by group_by_filter)
qed

lemma for_each_filter:
  assumes "\<And>x s. x \<in> set xs \<Longrightarrow> \<not> P x \<Longrightarrow> body x s = Inr s"
  shows "for_each body (filter P xs) s = for_each body xs s"
  using assms
proof (induction xs arbitrary: s)
  case Nil
  show ?case by simp
next
  case (Cons x xs)
  show ?case
  proof (cases "P x")
    case True
    with Cons show ?thesis by (simp split: sum.splits)
  next
    case False
    with Cons.prems[of x s] have "body x s = Inr s" by simp
    with False Cons show ?thesis by simp
  qed
qed

lemma group_responses_skip:
  assumes "km (benchmark_cluster_size cfg)
             (map (\<lambda>(resp, _). (start_block_height resp, block_height resp))
                (filter (\<lambda>(resp, uid). network resp = net) rs)) = Inl ValueError"
  shows "group_responses km cfg (filter (\<lambda>(resp, uid). network resp \<noteq> net) rs) g
           = group_responses km cfg rs g"
proof -
  have skip: "network_step km cfg ni s = Inr s"
    if "ni \<in> set (network_grouped_responses rs)" and "\<not> (case ni of (k, _) \<Rightarrow> k \<noteq> net)" for ni s
  proof -
    from that(2) obtain items where ni: "ni = (net, items)" by (cases ni) auto
    with that(1) network_grouped_responses_member[of net items rs]
    have "items = filter (\<lambda>(resp, uid). network resp = net) rs" by simp
    with assms ni show ?thesis by (simp add: network_step_def)
  qed
  show ?thesis
    unfolding group_responses_def network_grouped_responses_filter
    by (rule for_each_filter) (rule skip)
qed

lemma chunked_subset:
  assumes "chunked chunk_size grp = Inr cks" and "c \<in> set cks"
  shows "set c \<subseteq> set grp"
proof -
  from assms obtain k where "c = take (nat chunk_size) (drop (k * nat chunk_size) grp)"
    by (auto simp: chunked_def split: if_splits)
  then have "set c \<subseteq> set (drop (k * nat chunk_size) grp)" by (simp add: set_take_subset)
  also have "\<dots> \<subseteq> set grp" by (rule set_drop_subset)
  finally show ?thesis .
qed

lemma group_step_Inr:
  assumes "group_step chunk_size net (label, group0) (ng, g) = Inr st'"
  shows "\<exists>grp g1 cks min_start min_end.
           shuffle group0 g = (grp, g1) \<and> chunked chunk_size grp = Inr cks \<and>
           st' = (set_group net label
                    \<lparr>common_start = min_start, common_end = min_end, responses = cks\<rparr> ng, g1)"
proof -
  obtain grp g1 where sh: "shuffle group0 g = (grp, g1)" by (cases "shuffle group0 g")
  from assms sh obtain cks where cks: "chunked chunk_size grp = Inr cks"
    by (cases "chunked chunk_size grp") (simp_all add: group_step_def)
  from assms sh cks obtain min_start where
    ms: "py_min (map (\<lambda>(resp, _). start_block_height resp) grp) = Inr min_start"
    by (cases "py_min (map (\<lambda>(resp, _). start_block_height resp) grp)")
       (simp_all add: group_step_def)
  from assms sh cks ms obtain min_end where
    me: "py_min (map (\<lambda>(resp, _). block_height resp) grp) = Inr min_end"
    by (cases "py_min (map (\<lambda>(resp, _). block_height resp) grp)")
       (simp_all add: group_step_def)
  from assms sh cks ms me
  have "st' = (set_group net label
                    \<lparr>common_start = min_start, common_end = min_end, responses = cks\<rparr> ng, g1)"
    by (simp add: group_step_def)
  with sh cks show ?thesis by blast
qed

lemma group_step_sub:
  assumes step: "group_step chunk_size net (label, group0) st = Inr st'"
    and sub: "set group0 \<subseteq> {x \<in> set rs. network (fst x) = net}"
    and ok: "groups_sub rs st"
  shows "groups_sub rs st'"
proof -
  obtain ng g where st: "st = (ng, g)" by (cases st)
  from group_step_Inr[OF step[unfolded st]] obtain grp g1 cks min_start min_end where
    sh: "shuffle group0 g = (grp, g1)" and cks: "chunked chunk_size grp = Inr cks" and
    st': "st' = (set_group net label
                    \<lparr>common_start = min_start, common_end = min_end, responses = cks\<rparr> ng, g1)"
    by blast
  let ?info = "\<lparr>common_start = min_start, common_end = min_end, responses = cks\<rparr>"
  from shuffle_set[OF sh] sub have grp: "set grp \<subseteq> {x \<in> set rs. network (fst x) = net}" by simp
  show ?thesis
    unfolding groups_sub_def
  proof (intro allI impI)
    fix net' d' label' info' chunk x
    assume m: "(net', d') \<in> set (fst st')" and l: "(label', info') \<in> set d'"
      and c: "chunk \<in> set (responses info')" and x: "x \<in> set chunk"
    from m st' have "(net', d') \<in> set (set_group net label ?info ng)" by simp
    from set_group_member[OF this l]
    consider "(net', d') \<in> set ng" | "net' = net" "info' = ?info"
      | d0 where "net' = net" "(net, d0) \<in> set ng" "(label', info') \<in> set d0"
      by blast
    then show "x \<in> set rs \<and> network (fst x) = net'"
    proof cases
      case 1
      with ok st l c x show ?thesis unfolding groups_sub_def by fastforce
    next
      case 2
      with c have "chunk \<in> set cks" by simp
      from chunked_subset[OF cks this] x grp 2 show ?thesis by auto
    next
      case 3
      with ok st c x show ?thesis unfolding groups_sub_def by fastforce
    qed
  qed
qed

lemma network_step_sub:
  assumes step: "network_step km cfg (net, items) st = Inr st'"
    and mem: "(net, items) \<in> set (network_grouped_responses rs)"
    and ok: "groups_sub rs st"
  shows "groups_sub rs st'"
proof (cases "km (benchmark_cluster_size cfg)
             (map (\<lambda>(resp, _). (start_block_height resp, block_height resp)) items)")
  case (Inl e)
  with step have "st' = st" by (simp add: network_step_def split: if_splits)
  with ok show ?thesis by simp
next
  case (Inr labels)
  from network_grouped_responses_member[OF mem]
  have items: "set items \<subseteq> {x \<in> set rs. network (fst x) = net}" by auto
  from step Inr have "for_each (group_step (benchmark_query_chunk_size cfg) net)
            (grouped_by_label labels items) st = Inr st'"
    by (simp add: network_step_def)
  then show ?thesis using ok
  proof (rule for_each_invariant)
    fix lg s s'
    assume lg: "lg \<in> set (grouped_by_label labels items)" and s: "groups_sub rs s"
      and b: "group_step (benchmark_query_chunk_size cfg) net lg s = Inr s'"
    obtain label grp where [simp]: "lg = (label, grp)" by (cases lg)
    from grouped_by_label_member[of label grp labels items] lg items
    have "set grp \<subseteq> {x \<in> set rs. network (fst x) = net}" by auto
    with b s show "groups_sub rs s'" by (auto intro: group_step_sub)
  qed
qed

lemma group_responses_sub:
  assumes "group_responses km cfg rs g = Inr st'"
  shows "groups_sub rs st'"
proof -
  from assms have "for_each (network_step km cfg) (network_grouped_responses rs) ([], g) = Inr st'"
    by (simp add: group_responses_def)
  moreover have "groups_sub rs ([], g)" by (simp add: groups_sub_def)
  ultimately show ?thesis
  proof (rule for_each_invariant)
    fix ni s s'
    assume a: "ni \<in> set (network_grouped_responses rs)" "groups_sub rs s"
      "network_step km cfg ni s = Inr s'"
    obtain net items where "ni = (net, items)" by (cases ni)
    with a show "groups_sub rs s'" by (auto intro: network_step_sub)
  qed
qed

lemma chunk_step_probes_from:
  assumes "chunk_step dendrite cfg script net info chunk st = Inr st'"
    and "set chunk \<subseteq> set rs" and "probes_from rs st"
  shows "probes_from rs st'"
proof -
  obtain results g probes where st: "st = (results, g, probes)" by (cases st)
  from assms(1) st chunk_step_Inr[of dendrite cfg script net info chunk results g probes st']
  obtain q results' g2 where
    "st' = (results', g2, probes @ map (\<lambda>(response, uid). (response, uid, q)) chunk)"
    by blast
  with assms(2,3) st show ?thesis by (auto simp: probes_from_def)
qed

lemma run_benchmarks_probes_from:
  assumes "run_benchmarks km dendrite cfg rs g = Inr st'"
  shows "probes_from rs st'"
proof -
  from assms obtain ng g' where
    grp: "group_responses km cfg rs g = Inr (ng, g')" and
    run: "for_each (network_pass dendrite cfg) ng (Map.empty, g', []) = Inr st'"
    by (auto simp: run_benchmarks_def split: sum.splits)
  from group_responses_sub[OF grp] have sub: "groups_sub rs (ng, g')" .
  have init: "probes_from rs (Map.empty, g', [])" by (simp add: probes_from_def)
  from run init show ?thesis
  proof (rule for_each_invariant)
    fix nm s s'
    assume nm: "nm \<in> set ng" and s: "probes_from rs s"
      and b: "network_pass dendrite cfg nm s = Inr s'"
    obtain net main_group where [simp]: "nm = (net, main_group)" by (cases nm)
    from b have "for_each (label_step dendrite cfg net) main_group s = Inr s'"
      by (simp add: network_pass_def)
    then show "probes_from rs s'" using s
    proof (rule for_each_invariant)
      fix li t t'
      assume li: "li \<in> set main_group" and t: "probes_from rs t"
        and c: "label_step dendrite cfg net li t = Inr t'"
      obtain label info where [simp]: "li = (label, info)" by (cases li)
      from c have "for_each (chunk_step dendrite cfg (get_benchmark_query_script cfg net) net info)
          (responses info) t = Inr t'"
        by (simp add: label_step_def)
      then show "probes_from rs t'" using t
      proof (rule for_each_invariant)
        fix chunk u u'
        assume ch: "chunk \<in> set (responses info)" and u: "probes_from rs u"
          and d: "chunk_step dendrite cfg (get_benchmark_query_script cfg net) net info chunk u = Inr u'"
        from sub nm li ch have "set chunk \<subseteq> set rs"
          unfolding groups_sub_def by fastforce
        with d u show "probes_from rs u'" by (auto intro: chunk_step_probes_from)
      qed
    qed
  qed
qed

lemma two_cluster_config_fields:
  "benchmark_timeout two_cluster_config = 600"
  "benchmark_cluster_size two_cluster_config = 2"
  "benchmark_query_chunk_size two_cluster_config = 5"
  "benchmark_query_diff two_cluster_config = 10000"
  "get_benchmark_query_script two_cluster_config net = default_benchmark_query_script"
  by (simp_all add: two_cluster_config_def example_config_def)

lemma script_zero:
  "default_benchmark_query_script ''bitcoin'' 1000 21000 d zero_draws = Inr (query_11000, zero_draws)"
  using script_a[of d] by (simp add: zero_draws_def)

lemma group_twin:
  "group_responses coinciding_points_kmeans two_cluster_config twin_responses zero_draws =
     Inr ([(''bitcoin'',
            [(0, \<lparr>common_start = 1000, common_end = 21000,
                  responses = [[(claim ''r3'' ''bitcoin'' 1000 21000, [3]),
                                (claim ''r1'' ''bitcoin'' 1000 21000, [1])]]\<rparr>)])], zero_draws)"
  by (simp add: group_responses_def network_grouped_responses_def twin_responses_def
      setdefault_append_def claim_def network_step_def coinciding_points_kmeans_def
      two_cluster_config_fields grouped_by_label_def group_step_def shuffle_def randbelow_def
      chunked_def set_group_def zero_draws_def numeral_2_eq_2)

lemma group_d:
  "group_responses coinciding_points_kmeans two_cluster_config pass_d_responses zero_draws =
     Inr ([(''bitcoin'',
            [(0, \<lparr>common_start = 1000, common_end = 21000,
                  responses = [[(claim ''r3'' ''bitcoin'' 1000 21000, [3]),
                                (claim ''r1'' ''bitcoin'' 1000 21000, [1])]]\<rparr>)])], zero_draws)"
  by (simp add: group_responses_def network_grouped_responses_def pass_d_responses_def
      setdefault_append_def claim_def network_step_def coinciding_points_kmeans_def
      two_cluster_config_fields grouped_by_label_def group_step_def shuffle_def randbelow_def
      chunked_def set_group_def zero_draws_def numeral_2_eq_2)

lemma pass_of_twins:
  assumes "group_responses coinciding_points_kmeans two_cluster_config rs zero_draws =
     Inr ([(''bitcoin'',
            [(0, \<lparr>common_start = 1000, common_end = 21000,
                  responses = [[(claim ''r3'' ''bitcoin'' 1000 21000, [3]),
                                (claim ''r1'' ''bitcoin'' 1000 21000, [1])]]\<rparr>)])], zero_draws)"
  shows "run_benchmarks coinciding_points_kmeans pass_a_dendrite two_cluster_config rs zero_draws =
     Inr ([Some 3 \<mapsto> (Some 9999, True), Some 1 \<mapsto> (Some 50, False)], zero_draws,
          [(claim ''r3'' ''bitcoin'' 1000 21000, [3], query_11000),
           (claim ''r1'' ''bitcoin'' 1000 21000, [1], query_11000)])"
proof -
  have j: "randint 0 100 zero_draws = Inr (0, zero_draws)"
    by (simp add: randint_def randbelow_def zero_draws_def)
  have e: "execute_benchmarks pass_a_dendrite two_cluster_config
              [(claim ''r3'' ''bitcoin'' 1000 21000, [3]),
               (claim ''r1'' ''bitcoin'' 1000 21000, [1])] query_11000
             = [(Some 3, Some 9999, Some ''Y''), (Some 1, Some 50, Some ''X'')]"
    by (simp add: execute_benchmarks_def run_benchmark_def pass_a_dendrite_def claim_def)
  show ?thesis
    by (simp add: run_benchmarks_def assms network_pass_def label_step_def chunk_step_def
        j two_cluster_config_fields script_zero e score_a)
qed

text \<open>
  C9 as stated fails for its own example. Two responders of one network claim the same
  interval, so the network has one distinct coverage point, fewer than the two clusters
  configured; the clustering does not raise (there are as many points as clusters), the
  network is not skipped, and both responders are probed and get verdicts.
\<close>

theorem coinciding_points_are_not_skipped:
  "int (distinct_points twin_responses) < benchmark_cluster_size two_cluster_config \<and>
   coinciding_points_kmeans (benchmark_cluster_size two_cluster_config)
       [(1000, 21000), (1000, 21000)] = Inr [0, 0] \<and>
   run_benchmarks coinciding_points_kmeans pass_a_dendrite two_cluster_config twin_responses
       zero_draws =
     Inr ([Some 3 \<mapsto> (Some 9999, True), Some 1 \<mapsto> (Some 50, False)], zero_draws,
          [(claim ''r3'' ''bitcoin'' 1000 21000, [3], query_11000),
           (claim ''r1'' ''bitcoin'' 1000 21000, [1], query_11000)])"
proof -
  have 1: "int (distinct_points twin_responses) < benchmark_cluster_size two_cluster_config"
    by (simp add: distinct_points_def twin_responses_def claim_def two_cluster_config_fields)
  have 2: "coinciding_points_kmeans (benchmark_cluster_size two_cluster_config)
       [(1000, 21000), (1000, 21000)] = Inr [0, 0]"
    by (simp add: coinciding_points_kmeans_def two_cluster_config_fields)
  from 1 2 pass_of_twins[OF group_twin] show ?thesis by blast
qed

text \<open>
  C9, amended. If the clustering of a network's coverage points raises \<open>ValueError\<close> (which
  \<open>KMeans.fit\<close> does when the network has fewer responders than clusters), the network is
  skipped: the cohorts and the whole pass (verdicts, generator, probes, or the exception
  raised) are those of the pass over the responders of the other networks, and no probe goes
  to a responder of the skipped network.
\<close>

theorem infeasible_clustering_skips_network:
  assumes "km (benchmark_cluster_size cfg)
             (map (\<lambda>(resp, _). (start_block_height resp, block_height resp))
                (filter (\<lambda>(resp, uid). network resp = net) rs)) = Inl ValueError"
  shows "group_responses km cfg rs g =
           group_responses km cfg (filter (\<lambda>(resp, uid). network resp \<noteq> net) rs) g \<and>
         run_benchmarks km dendrite cfg rs g =
           run_benchmarks km dendrite cfg (filter (\<lambda>(resp, uid). network resp \<noteq> net) rs) g \<and>
         (\<forall>results g' probes.
            run_benchmarks km dendrite cfg rs g = Inr (results, g', probes) \<longrightarrow>
            (\<forall>(response, uid, q)\<in>set probes. network response \<noteq> net))"
proof -
  let ?rs' = "filter (\<lambda>(resp, uid). network resp \<noteq> net) rs"
  have grp: "group_responses km cfg ?rs' g = group_responses km cfg rs g"
    using assms by (rule group_responses_skip)
  then have run: "run_benchmarks km dendrite cfg ?rs' g = run_benchmarks km dendrite cfg rs g"
    by (simp add: run_benchmarks_def)
  have "network response \<noteq> net"
    if "run_benchmarks km dendrite cfg rs g = Inr (results, g', probes)"
      and "(response, uid, q) \<in> set probes" for results g' probes response uid q
  proof -
    from that(1) run have "run_benchmarks km dendrite cfg ?rs' g = Inr (results, g', probes)" by simp
    from run_benchmarks_probes_from[OF this] that(2) have "(response, uid) \<in> set ?rs'"
      by (auto simp: probes_from_def)
    then show ?thesis by simp
  qed
  with grp run show ?thesis by fastforce
qed

theorem infeasible_clustering_pass_d:
  "coinciding_points_kmeans (benchmark_cluster_size two_cluster_config)
     (map (\<lambda>(resp, _). (start_block_height resp, block_height resp))
        (filter (\<lambda>(resp, uid). network resp = ''doge'') pass_d_responses)) = Inl ValueError \<and>
   run_benchmarks coinciding_points_kmeans pass_a_dendrite two_cluster_config pass_d_responses
       zero_draws =
     run_benchmarks coinciding_points_kmeans pass_a_dendrite two_cluster_config
       (filter (\<lambda>(resp, uid). network resp \<noteq> ''doge'') pass_d_responses) zero_draws \<and>
   run_benchmarks coinciding_points_kmeans pass_a_dendrite two_cluster_config pass_d_responses
       zero_draws =
     Inr ([Some 3 \<mapsto> (Some 9999, True), Some 1 \<mapsto> (Some 50, False)], zero_draws,
          [(claim ''r3'' ''bitcoin'' 1000 21000, [3], query_11000),
           (claim ''r1'' ''bitcoin'' 1000 21000, [1], query_11000)])"
proof -
  have h: "coinciding_points_kmeans (benchmark_cluster_size two_cluster_config)
     (map (\<lambda>(resp, _). (start_block_height resp, block_height resp))
        (filter (\<lambda>(resp, uid). network resp = ''doge'') pass_d_responses)) = Inl ValueError"
    by (simp add: coinciding_points_kmeans_def two_cluster_config_fields pass_d_responses_def
        claim_def)
  from infeasible_clustering_skips_network[where km = coinciding_points_kmeans
      and cfg = two_cluster_config and net = "''doge''" and rs = pass_d_responses
      and g = zero_draws and dendrite = pass_a_dendrite] h pass_of_twins[OF group_d]
  show ?thesis by blast
qed

text \<open>With a clustering that raises \<open>ValueError\<close> whenever it is given fewer points than
  clusters, a network with fewer responders than clusters is skipped.\<close>

lemma fewer_responders_than_clusters:
  assumes "\<And>k data. int (length data) < k \<Longrightarrow> km k data = Inl ValueError"
    and "int (length (filter (\<lambda>(resp, uid). network resp = net) rs)) < benchmark_cluster_size cfg"
  shows "run_benchmarks km dendrite cfg rs g =
           run_benchmarks km dendrite cfg (filter (\<lambda>(resp, uid). network resp \<noteq> net) rs) g"
proof -
  from assms have "km (benchmark_cluster_size cfg)
             (map (\<lambda>(resp, _). (start_block_height resp, block_height resp))
                (filter (\<lambda>(resp, uid). network resp = net) rs)) = Inl ValueError"
    by simp
  then have "group_responses km cfg (filter (\<lambda>(resp, uid). network resp \<noteq> net) rs) g
               = group_responses km cfg rs g"
    by (rule group_responses_skip)
  then show ?thesis by (simp add: run_benchmarks_def)
qed

section \<open>The query synthesizer\<close>

lemma randint_range:
  assumes "a \<le> b"
  shows "\<exists>r. randint a b g = Inr (r, (\<lambda>i. g (Suc i))) \<and> a \<le> r \<and> r \<le> b"
proof -
  from assms have w: "0 < nat (b + 1 - a)" by simp
  then have "g 0 mod nat (b + 1 - a) < nat (b + 1 - a)" by simp
  then have "a + int (g 0 mod nat (b + 1 - a)) \<le> b" by linarith
  with assms show ?thesis by (simp add: randint_def randbelow_def Let_def)
qed

lemma randint_empty: "b < a \<Longrightarrow> randint a b g = Inl ValueError"
  by (simp add: randint_def)

lemma randint_attains:
  assumes "a \<le> r" and "r \<le> b"
  shows "randint a b (\<lambda>_. nat (r - a)) = Inr (r, (\<lambda>_. nat (r - a)))"
  using assms by (simp add: randint_def randbelow_def Let_def)

lemma build_query_range:
  assumes "start_block + (end_block - start_block) div 2 \<le> end_block - diff"
  shows "\<exists>block_num. build_query net start_block end_block diff g
             = Inr (query_text block_num (block_num + diff), (\<lambda>i. g (Suc i))) \<and>
           start_block + (end_block - start_block) div 2 \<le> block_num \<and>
           block_num \<le> end_block - diff"
  using randint_range[OF assms, of g] by (auto simp: build_query_def Let_def)

lemma build_query_too_narrow:
  assumes "end_block - diff < start_block + (end_block - start_block) div 2"
  shows "build_query net start_block end_block diff g = Inl ValueError"
  using randint_empty[OF assms] by (simp add: build_query_def Let_def)

text \<open>With the stored text every chunk makes the pass raise, the jitter having been drawn.\<close>

lemma stored_script_aborts_chunk:
  "chunk_step dendrite cfg stored_benchmark_query_script net info chunk st = Inl SyntaxError"
  by (cases st) (simp add: chunk_step_def stored_benchmark_query_script_def randint_def
      randbelow_def Let_def split: prod.splits)

lemma default_script_ignores_diff:
  "default_benchmark_query_script net start_block end_block d g =
     default_benchmark_query_script net start_block end_block d' g"
  by (simp add: default_benchmark_query_script_def)

lemma scenario_a:
  "default_benchmark_query_script net 1000 21000 10000 g =
     Inr (query_text 11000 21000, (\<lambda>i. g (Suc i)))"
  by (simp add: default_benchmark_query_script_def build_query_def randint_def randbelow_def)

lemma query_text_11000: "query_text 11000 21000 = query_11000"
  by (simp add: query_text_def query_11000_def str_int_11000 str_int_21000)

lemma execute_r1:
  "execute_benchmarks pass_a_dendrite example_config
     [(claim ''r1'' ''bitcoin'' 1000 21000, [1])] q = [(Some 1, Some 50, Some ''X'')]"
  by (simp add: execute_benchmarks_def run_benchmark_def pass_a_dendrite_def claim_def)

lemma score_single:
  "score_chunk results [(u, t, r)] = results(u \<mapsto> (t, True))"
  by (simp add: score_chunk_def most_common_result_def most_common_1_def Counter_def
      counter_add_def)

lemma chunk_step_cohort_a:
  "chunk_step pass_a_dendrite example_config (get_benchmark_query_script example_config ''bitcoin'')
       ''bitcoin'' cohort_a [(claim ''r1'' ''bitcoin'' 1000 21000, [1])]
       (Map.empty, draws_of [j, d], [])
     = Inr ([Some 1 \<mapsto> (Some 50, True)], zero_draws,
            [(claim ''r1'' ''bitcoin'' 1000 21000, [1], query_text 11000 21000)])"
proof -
  have j: "randint 0 100 (draws_of [j, d]) = Inr (int (j mod 101), draws_of [d])"
    by (simp add: randint_def randbelow_def draws_of_def fun_eq_iff)
  have s: "default_benchmark_query_script ''bitcoin'' 1000 21000 w (draws_of [d])
             = Inr (query_text 11000 21000, zero_draws)" for w
    by (simp add: default_benchmark_query_script_def build_query_def randint_def randbelow_def
        draws_of_def zero_draws_def)
  show ?thesis
    by (simp add: chunk_step_def j s example_config_fields cohort_a_def execute_r1 score_single)
qed

text \<open>
  C4, evaluated where it fails. With the default configuration (\<open>diff = 10000\<close>), the safe
  interval \<open>[1000, 21000]\<close> and a jitter of 100 the effective width is 9900, so that the
  block number would be picked in \<open>[11000, 11100]\<close> and the probed range would be 9900 wide.
  The code picks 11000 and probes \<open>[11000, 21000]\<close>, whatever the second draw (here 37).
\<close>

theorem probed_range_ignores_effective_diff:
  "randint 0 100 (draws_of [100, 37]) = Inr (100, draws_of [37]) \<and>
   benchmark_query_diff example_config - 100 = 9900 \<and>
   chunk_step pass_a_dendrite example_config (get_benchmark_query_script example_config ''bitcoin'')
       ''bitcoin'' cohort_a [(claim ''r1'' ''bitcoin'' 1000 21000, [1])]
       (Map.empty, draws_of [100, 37], [])
     = Inr ([Some 1 \<mapsto> (Some 50, True)], zero_draws,
            [(claim ''r1'' ''bitcoin'' 1000 21000, [1], query_text 11000 21000)]) \<and>
   query_text 11000 21000 =
     ''UNWIND range(11000, 21000) AS block_height MATCH (p:Transaction) WHERE p.block_height = block_height RETURN SUM(p.block_height);''"
proof -
  have 1: "randint 0 100 (draws_of [100, 37]) = Inr (100, draws_of [37])"
    by (simp add: randint_def randbelow_def draws_of_def fun_eq_iff)
  have 2: "benchmark_query_diff example_config - 100 = 9900"
    by (simp add: example_config_fields)
  have 3: "query_text 11000 21000 =
     ''UNWIND range(11000, 21000) AS block_height MATCH (p:Transaction) WHERE p.block_height = block_height RETURN SUM(p.block_height);''"
    by (simp add: query_text_11000 query_11000_def)
  from 1 2 chunk_step_cohort_a[of 100 37] 3 show ?thesis by blast
qed

text \<open>
  C5, evaluated where it fails. The query of the default script does not depend on the
  \<open>diff\<close> it is run with, so the chunk is sent the same query with a jitter of 0 and with a
  jitter of 100: it probes \<open>[11000, 21000]\<close>, of width 10000, where \<open>build_query\<close> with the
  jittered width 9900 would probe \<open>[11000, 20900]\<close>.
\<close>

theorem jitter_leaves_query_unchanged:
  "default_benchmark_query_script net start_block end_block (benchmark_query_diff cfg - jitter) g =
     default_benchmark_query_script net start_block end_block (benchmark_query_diff cfg) g \<and>
   chunk_step pass_a_dendrite example_config (get_benchmark_query_script example_config ''bitcoin'')
       ''bitcoin'' cohort_a [(claim ''r1'' ''bitcoin'' 1000 21000, [1])]
       (Map.empty, draws_of [100, 0], [])
     = chunk_step pass_a_dendrite example_config
         (get_benchmark_query_script example_config ''bitcoin'')
         ''bitcoin'' cohort_a [(claim ''r1'' ''bitcoin'' 1000 21000, [1])]
         (Map.empty, draws_of [0, 0], []) \<and>
   default_benchmark_query_script ''bitcoin'' 1000 21000 (10000 - 100) zero_draws =
     Inr (query_text 11000 21000, zero_draws) \<and>
   build_query ''bitcoin'' 1000 21000 (10000 - 100) zero_draws =
     Inr (query_text 11000 20900, zero_draws)"
proof -
  have 1: "default_benchmark_query_script net start_block end_block
             (benchmark_query_diff cfg - jitter) g =
           default_benchmark_query_script net start_block end_block (benchmark_query_diff cfg) g"
    by (rule default_script_ignores_diff)
  have 2: "chunk_step pass_a_dendrite example_config
       (get_benchmark_query_script example_config ''bitcoin'')
       ''bitcoin'' cohort_a [(claim ''r1'' ''bitcoin'' 1000 21000, [1])]
       (Map.empty, draws_of [100, 0], [])
     = chunk_step pass_a_dendrite example_config
         (get_benchmark_query_script example_config ''bitcoin'')
         ''bitcoin'' cohort_a [(claim ''r1'' ''bitcoin'' 1000 21000, [1])]
         (Map.empty, draws_of [0, 0], [])"
    by (simp only: chunk_step_cohort_a)
  have 3: "default_benchmark_query_script ''bitcoin'' 1000 21000 (10000 - 100) zero_draws =
     Inr (query_text 11000 21000, zero_draws)"
    by (simp add: default_benchmark_query_script_def build_query_def randint_def randbelow_def
        zero_draws_def)
  have 4: "build_query ''bitcoin'' 1000 21000 (10000 - 100) zero_draws =
     Inr (query_text 11000 20900, zero_draws)"
    by (simp add: build_query_def randint_def randbelow_def zero_draws_def)
  from 1 2 3 4 show ?thesis by blast
qed

text \<open>
  C6, evaluated where it fails. A first network whose only cohort has the safe interval
  \<open>[0, 100]\<close>, too narrow for a width of 10000, makes the whole pass raise \<open>ValueError\<close>,
  though the pass over the second network alone returns a verdict.
\<close>

theorem narrow_cohort_aborts_pass:
  "run_benchmarks one_cluster pass_a_dendrite example_config narrow_responses zero_draws
     = Inl ValueError \<and>
   run_benchmarks one_cluster pass_a_dendrite example_config
       [(claim ''r3'' ''doge'' 1000 21000, [3])] zero_draws
     = Inr ([Some 3 \<mapsto> (Some 9999, True)], zero_draws,
            [(claim ''r3'' ''doge'' 1000 21000, [3], query_text 11000 21000)])"
proof -
  have g1: "group_responses one_cluster example_config narrow_responses zero_draws =
     Inr ([(''bitcoin'', [(0, \<lparr>common_start = 0, common_end = 100,
                              responses = [[(claim ''n1'' ''bitcoin'' 0 100, [1])]]\<rparr>)]),
           (''doge'', [(0, \<lparr>common_start = 1000, common_end = 21000,
                           responses = [[(claim ''r3'' ''doge'' 1000 21000, [3])]]\<rparr>)])],
          zero_draws)"
    by (simp add: group_responses_def network_grouped_responses_def narrow_responses_def
        setdefault_append_def claim_def network_step_def one_cluster_def example_config_fields
        grouped_by_label_def group_step_def shuffle_def randbelow_def chunked_def set_group_def
        zero_draws_def)
  have g2: "group_responses one_cluster example_config
              [(claim ''r3'' ''doge'' 1000 21000, [3])] zero_draws =
     Inr ([(''doge'', [(0, \<lparr>common_start = 1000, common_end = 21000,
                           responses = [[(claim ''r3'' ''doge'' 1000 21000, [3])]]\<rparr>)])],
          zero_draws)"
    by (simp add: group_responses_def network_grouped_responses_def
        setdefault_append_def claim_def network_step_def one_cluster_def example_config_fields
        grouped_by_label_def group_step_def shuffle_def randbelow_def chunked_def set_group_def
        zero_draws_def)
  have j: "randint 0 100 zero_draws = Inr (0, zero_draws)"
    by (simp add: randint_def randbelow_def zero_draws_def)
  have narrow: "default_benchmark_query_script ''bitcoin'' 0 100 d zero_draws = Inl ValueError" for d
    by (simp add: default_benchmark_query_script_def build_query_too_narrow)
  have wide: "default_benchmark_query_script ''doge'' 1000 21000 d zero_draws
                = Inr (query_text 11000 21000, zero_draws)" for d
    by (simp add: default_benchmark_query_script_def build_query_def randint_def randbelow_def
        zero_draws_def)
  have e: "execute_benchmarks pass_a_dendrite example_config
             [(claim ''r3'' ''doge'' 1000 21000, [3])] q = [(Some 3, Some 9999, Some ''Y'')]" for q
    by (simp add: execute_benchmarks_def run_benchmark_def pass_a_dendrite_def claim_def)
  have 1: "run_benchmarks one_cluster pass_a_dendrite example_config narrow_responses zero_draws
             = Inl ValueError"
    by (simp add: run_benchmarks_def g1 network_pass_def label_step_def chunk_step_def j
        example_config_fields narrow)
  have 2: "run_benchmarks one_cluster pass_a_dendrite example_config
       [(claim ''r3'' ''doge'' 1000 21000, [3])] zero_draws
     = Inr ([Some 3 \<mapsto> (Some 9999, True)], zero_draws,
            [(claim ''r3'' ''doge'' 1000 21000, [3], query_text 11000 21000)])"
    by (simp add: run_benchmarks_def g2 network_pass_def label_step_def chunk_step_def j
        example_config_fields wide e score_single)
  from 1 2 show ?thesis by simp
qed

section \<open>One query per chunk\<close>

lemma single_chunk_config_fields:
  "benchmark_timeout single_chunk_config = 600"
  "benchmark_cluster_size single_chunk_config = 1"
  "benchmark_query_chunk_size single_chunk_config = 1"
  "benchmark_query_diff single_chunk_config = 10000"
  "get_benchmark_query_script single_chunk_config net = default_benchmark_query_script"
  by (simp_all add: single_chunk_config_def example_config_def)

lemma str_int_values:
  "str_int 20000 = ''20000''" "str_int 30000 = ''30000''"
  "str_int 20005 = ''20005''" "str_int 30005 = ''30005''"
  by (simp_all add: str_int_def str_nat.simps digit_char_def)

lemma draws_of_simps:
  "draws_of (d # ds) 0 = d"
  "draws_of (d # ds) (Suc i) = draws_of ds i"
  "draws_of [] = zero_draws"
  by (simp_all add: draws_of_def zero_draws_def fun_eq_iff)

lemma group_wide:
  "group_responses one_cluster single_chunk_config wide_responses (draws_of [0, 0, 0, 0, 5]) =
     Inr ([(''bitcoin'',
            [(0, \<lparr>common_start = 0, common_end = 40000,
                  responses = [[(claim ''r2'' ''bitcoin'' 0 40000, [2])],
                               [(claim ''r1'' ''bitcoin'' 0 40000, [1])]]\<rparr>)])],
          draws_of [0, 0, 0, 5])"
  by (simp add: group_responses_def network_grouped_responses_def wide_responses_def
      setdefault_append_def claim_def network_step_def one_cluster_def single_chunk_config_fields
      grouped_by_label_def group_step_def shuffle_def randbelow_def chunked_def set_group_def
      draws_of_simps upt_rec numeral_2_eq_2)

text \<open>
  C7 as stated fails: with a chunk size of 1, the two chunks of one cohort are sent different
  queries, over \<open>[20000, 30000]\<close> and over \<open>[20005, 30005]\<close>.
\<close>

theorem chunks_of_one_cohort_get_different_queries:
  "run_benchmarks one_cluster scenario_b_dendrite single_chunk_config wide_responses
       (draws_of [0, 0, 0, 0, 5])
     = Inr ([Some 2 \<mapsto> (Some 60, True), Some 1 \<mapsto> (Some 50, True)], zero_draws,
            [(claim ''r2'' ''bitcoin'' 0 40000, [2], query_text 20000 30000),
             (claim ''r1'' ''bitcoin'' 0 40000, [1], query_text 20005 30005)]) \<and>
   query_text 20000 30000 \<noteq> query_text 20005 30005"
proof -
  have e2: "execute_benchmarks scenario_b_dendrite single_chunk_config
              [(claim ''r2'' ''bitcoin'' 0 40000, [2])] q = [(Some 2, Some 60, Some ''X'')]" for q
    by (simp add: execute_benchmarks_def run_benchmark_def scenario_b_dendrite_def claim_def)
  have e1: "execute_benchmarks scenario_b_dendrite single_chunk_config
              [(claim ''r1'' ''bitcoin'' 0 40000, [1])] q = [(Some 1, Some 50, Some ''X'')]" for q
    by (simp add: execute_benchmarks_def run_benchmark_def scenario_b_dendrite_def claim_def)
  have run: "run_benchmarks one_cluster scenario_b_dendrite single_chunk_config wide_responses
       (draws_of [0, 0, 0, 0, 5])
     = Inr ([Some 2 \<mapsto> (Some 60, True), Some 1 \<mapsto> (Some 50, True)], zero_draws,
            [(claim ''r2'' ''bitcoin'' 0 40000, [2], query_text 20000 30000),
             (claim ''r1'' ''bitcoin'' 0 40000, [1], query_text 20005 30005)])"
    by (simp add: run_benchmarks_def group_wide network_pass_def label_step_def chunk_step_def
        single_chunk_config_fields default_benchmark_query_script_def build_query_def
        randint_def randbelow_def draws_of_simps e1 e2 score_single)
  have "query_text 20000 30000 \<noteq> query_text 20005 30005"
    by (simp add: query_text_def str_int_values)
  with run show ?thesis by simp
qed

lemma for_each_all:
  assumes "for_each body xs s = Inr s'"
    and "\<And>x s s'. x \<in> set xs \<Longrightarrow> body x s = Inr s' \<Longrightarrow> Q x s'"
    and "\<And>x y s s'. y \<in> set xs \<Longrightarrow> Q x s \<Longrightarrow> body y s = Inr s' \<Longrightarrow> Q x s'"
    and "x \<in> set xs"
  shows "Q x s'"
  using assms
proof (induction xs arbitrary: s)
  case Nil
  then show ?case by simp
next
  case (Cons y ys)
  from Cons.prems(1) obtain s1 where s1: "body y s = Inr s1" and rest: "for_each body ys s1 = Inr s'"
    by (auto split: sum.splits)
  show ?case
  proof (cases "x = y")
    case True
    with s1 Cons.prems(2)[of y s s1] have "Q x s1" by simp
    with rest show ?thesis
    proof (rule for_each_invariant)
      fix z t t'
      assume "z \<in> set ys" "Q x t" "body z t = Inr t'"
      then show "Q x t'" using Cons.prems(3)[of z x t t'] by simp
    qed
  next
    case False
    with Cons.prems(4) have "x \<in> set ys" by simp
    show ?thesis
    proof (rule Cons.IH[OF rest _ _ \<open>x \<in> set ys\<close>])
      fix z t t'
      assume "z \<in> set ys" "body z t = Inr t'"
      then show "Q z t'" using Cons.prems(2)[of z t t'] by simp
    next
      fix z w t t'
      assume "w \<in> set ys" "Q z t" "body w t = Inr t'"
      then show "Q z t'" using Cons.prems(3)[of w z t t'] by simp
    qed
  qed
qed

lemma chunk_step_probes_grow:
  assumes "chunk_step dendrite cfg script net info chunk st = Inr st'"
  shows "set (snd (snd st)) \<subseteq> set (snd (snd st'))"
proof -
  obtain results g probes where st: "st = (results, g, probes)" by (cases st)
  from assms st chunk_step_Inr[of dendrite cfg script net info chunk results g probes st']
  obtain q results' g2 where
    "st' = (results', g2, probes @ map (\<lambda>(response, uid). (response, uid, q)) chunk)"
    by blast
  with st show ?thesis by auto
qed

lemma chunk_step_sent_same_query:
  assumes "chunk_step dendrite cfg script net info chunk st = Inr st'"
  shows "sent_same_query chunk st'"
proof -
  obtain results g probes where st: "st = (results, g, probes)" by (cases st)
  from assms st chunk_step_Inr[of dendrite cfg script net info chunk results g probes st']
  obtain q results' g2 where
    "st' = (results', g2, probes @ map (\<lambda>(response, uid). (response, uid, q)) chunk)"
    by blast
  then have "\<forall>(response, uid)\<in>set chunk. (response, uid, q) \<in> set (snd (snd st'))"
    by auto
  then show ?thesis unfolding sent_same_query_def by blast
qed

lemma sent_same_query_mono:
  "sent_same_query chunk st \<Longrightarrow> set (snd (snd st)) \<subseteq> set (snd (snd st'))
     \<Longrightarrow> sent_same_query chunk st'"
  unfolding sent_same_query_def by blast

lemma label_step_probes_grow:
  assumes "label_step dendrite cfg net li st = Inr st'"
  shows "set (snd (snd st)) \<subseteq> set (snd (snd st'))"
proof -
  obtain label info where li: "li = (label, info)" by (cases li)
  from assms li have "for_each (chunk_step dendrite cfg (get_benchmark_query_script cfg net) net info)
          (responses info) st = Inr st'"
    by (simp add: label_step_def)
  moreover have "set (snd (snd st)) \<subseteq> set (snd (snd st))" by simp
  ultimately show ?thesis
  proof (rule for_each_invariant)
    fix chunk s s'
    assume "set (snd (snd st)) \<subseteq> set (snd (snd s))"
      "chunk_step dendrite cfg (get_benchmark_query_script cfg net) net info chunk s = Inr s'"
    then show "set (snd (snd st)) \<subseteq> set (snd (snd s'))"
      using chunk_step_probes_grow by blast
  qed
qed

lemma network_pass_probes_grow:
  assumes "network_pass dendrite cfg nm st = Inr st'"
  shows "set (snd (snd st)) \<subseteq> set (snd (snd st'))"
proof -
  obtain net main_group where nm: "nm = (net, main_group)" by (cases nm)
  from assms nm have "for_each (label_step dendrite cfg net) main_group st = Inr st'"
    by (simp add: network_pass_def)
  moreover have "set (snd (snd st)) \<subseteq> set (snd (snd st))" by simp
  ultimately show ?thesis
  proof (rule for_each_invariant)
    fix li s s'
    assume "set (snd (snd st)) \<subseteq> set (snd (snd s))"
      "label_step dendrite cfg net li s = Inr s'"
    then show "set (snd (snd st)) \<subseteq> set (snd (snd s'))"
      using label_step_probes_grow by blast
  qed
qed

lemma label_step_sent_same_query:
  assumes "label_step dendrite cfg net (label, info) st = Inr st'"
    and "chunk \<in> set (responses info)"
  shows "sent_same_query chunk st'"
proof -
  from assms(1) have "for_each (chunk_step dendrite cfg (get_benchmark_query_script cfg net) net info)
          (responses info) st = Inr st'"
    by (simp add: label_step_def)
  then show ?thesis
  proof (rule for_each_all[where Q = sent_same_query])
    show "chunk \<in> set (responses info)" by (rule assms(2))
  next
    fix x s s'
    assume "chunk_step dendrite cfg (get_benchmark_query_script cfg net) net info x s = Inr s'"
    then show "sent_same_query x s'" by (rule chunk_step_sent_same_query)
  next
    fix x y s s'
    assume a: "sent_same_query x s"
      and b: "chunk_step dendrite cfg (get_benchmark_query_script cfg net) net info y s = Inr s'"
    show "sent_same_query x s'"
      using sent_same_query_mono[OF a chunk_step_probes_grow[OF b]] .
  qed
qed

lemma network_pass_sent_same_query:
  assumes "network_pass dendrite cfg (net, main_group) st = Inr st'"
    and "(label, info) \<in> set main_group" and "chunk \<in> set (responses info)"
  shows "sent_same_query chunk st'"
proof -
  from assms(1) have "for_each (label_step dendrite cfg net) main_group st = Inr st'"
    by (simp add: network_pass_def)
  then have "\<forall>chunk\<in>set (responses (snd (label, info))). sent_same_query chunk st'"
  proof (rule for_each_all[where Q = "\<lambda>li s. \<forall>chunk\<in>set (responses (snd li)). sent_same_query chunk s"])
    show "(label, info) \<in> set main_group" by (rule assms(2))
  next
    fix li s s'
    assume "label_step dendrite cfg net li s = Inr s'"
    then show "\<forall>chunk\<in>set (responses (snd li)). sent_same_query chunk s'"
      by (cases li) (auto intro: label_step_sent_same_query)
  next
    fix li y s s'
    assume a: "\<forall>chunk\<in>set (responses (snd li)). sent_same_query chunk s"
      and b: "label_step dendrite cfg net y s = Inr s'"
    show "\<forall>chunk\<in>set (responses (snd li)). sent_same_query chunk s'"
    proof
      fix chunk assume "chunk \<in> set (responses (snd li))"
      with a have "sent_same_query chunk s" by simp
      then show "sent_same_query chunk s'"
        using label_step_probes_grow[OF b] by (rule sent_same_query_mono)
    qed
  qed
  with assms(3) show ?thesis by simp
qed

lemma run_benchmarks_sent_same_query:
  assumes "group_responses km cfg rs g = Inr (ng, g1)"
    and "run_benchmarks km dendrite cfg rs g = Inr st"
    and "(net, main_group) \<in> set ng"
    and "(label, info) \<in> set main_group" and "chunk \<in> set (responses info)"
  shows "sent_same_query chunk st"
proof -
  from assms(1,2) have "for_each (network_pass dendrite cfg) ng (Map.empty, g1, []) = Inr st"
    by (simp add: run_benchmarks_def)
  then have "\<forall>(label, info)\<in>set (snd (net, main_group)).
               \<forall>chunk\<in>set (responses info). sent_same_query chunk st"
  proof (rule for_each_all[where Q = "\<lambda>nm s. \<forall>(label, info)\<in>set (snd nm).
               \<forall>chunk\<in>set (responses info). sent_same_query chunk s"])
    show "(net, main_group) \<in> set ng" by (rule assms(3))
  next
    fix nm s s'
    assume "network_pass dendrite cfg nm s = Inr s'"
    then show "\<forall>(label, info)\<in>set (snd nm). \<forall>chunk\<in>set (responses info). sent_same_query chunk s'"
      by (cases nm) (auto intro: network_pass_sent_same_query)
  next
    fix nm y s s'
    assume a: "\<forall>(label, info)\<in>set (snd nm). \<forall>chunk\<in>set (responses info). sent_same_query chunk s"
      and b: "network_pass dendrite cfg y s = Inr s'"
    show "\<forall>(label, info)\<in>set (snd nm). \<forall>chunk\<in>set (responses info). sent_same_query chunk s'"
    proof (intro ballI, clarify)
      fix label info chunk
      assume "(label, info) \<in> set (snd nm)" "chunk \<in> set (responses info)"
      with a have "sent_same_query chunk s" by fastforce
      then show "sent_same_query chunk s'"
        using network_pass_probes_grow[OF b] by (rule sent_same_query_mono)
    qed
  qed
  with assms(4,5) show ?thesis by auto
qed

text \<open>
  C7, amended. For every chunk the script is run once, and the query it builds is the one
  sent to every member of the chunk and the one whose outcomes are scored; when a pass
  returns, all members of any chunk of any cohort were sent one and the same query.
\<close>

theorem one_query_per_chunk:
  "(\<forall>results g probes st'.
      chunk_step dendrite cfg script net info chunk (results, g, probes) = Inr st' \<longrightarrow>
      (\<exists>jitter g1 q g2.
          randint 0 100 g = Inr (jitter, g1) \<and>
          script net (common_start info) (common_end info) (benchmark_query_diff cfg - jitter) g1
            = Inr (q, g2) \<and>
          st' = (score_chunk results (execute_benchmarks dendrite cfg chunk q), g2,
                 probes @ map (\<lambda>(response, uid). (response, uid, q)) chunk))) \<and>
   (\<forall>ng g1 st net' main_group label info' chunk'.
      group_responses km cfg rs g0 = Inr (ng, g1) \<longrightarrow>
      run_benchmarks km dendrite cfg rs g0 = Inr st \<longrightarrow>
      (net', main_group) \<in> set ng \<longrightarrow> (label, info') \<in> set main_group \<longrightarrow>
      chunk' \<in> set (responses info') \<longrightarrow>
      sent_same_query chunk' st)"
proof (intro conjI allI impI)
  fix results g probes st'
  assume "chunk_step dendrite cfg script net info chunk (results, g, probes) = Inr st'"
  then show "\<exists>jitter g1 q g2.
          randint 0 100 g = Inr (jitter, g1) \<and>
          script net (common_start info) (common_end info) (benchmark_query_diff cfg - jitter) g1
            = Inr (q, g2) \<and>
          st' = (score_chunk results (execute_benchmarks dendrite cfg chunk q), g2,
                 probes @ map (\<lambda>(response, uid). (response, uid, q)) chunk)"
    by (rule chunk_step_Inr)
next
  fix ng g1 st net' main_group label info' chunk'
  assume "group_responses km cfg rs g0 = Inr (ng, g1)"
    "run_benchmarks km dendrite cfg rs g0 = Inr st"
    "(net', main_group) \<in> set ng" "(label, info') \<in> set main_group"
    "chunk' \<in> set (responses info')"
  then show "sent_same_query chunk' st" by (rule run_benchmarks_sent_same_query)
qed

theorem one_query_per_chunk_pass_a:
  "run_benchmarks one_cluster pass_a_dendrite example_config pass_a_responses (\<lambda>_. 0) =
     Inr ([Some 3 \<mapsto> (Some 9999, True), Some 1 \<mapsto> (Some 50, False)], (\<lambda>_. 0),
          [(claim ''r2'' ''bitcoin'' 1000 21000, [2], query_11000),
           (claim ''r3'' ''bitcoin'' 1000 21000, [3], query_11000),
           (claim ''r1'' ''bitcoin'' 1000 21000, [1], query_11000)]) \<and>
   (\<exists>q. (claim ''r2'' ''bitcoin'' 1000 21000, [2::int], q) \<in> set
          [(claim ''r2'' ''bitcoin'' 1000 21000, [2], query_11000),
           (claim ''r3'' ''bitcoin'' 1000 21000, [3], query_11000),
           (claim ''r1'' ''bitcoin'' 1000 21000, [1], query_11000)] \<and>
        (claim ''r3'' ''bitcoin'' 1000 21000, [3::int], q) \<in> set
          [(claim ''r2'' ''bitcoin'' 1000 21000, [2], query_11000),
           (claim ''r3'' ''bitcoin'' 1000 21000, [3], query_11000),
           (claim ''r1'' ''bitcoin'' 1000 21000, [1], query_11000)] \<and>
        (claim ''r1'' ''bitcoin'' 1000 21000, [1::int], q) \<in> set
          [(claim ''r2'' ''bitcoin'' 1000 21000, [2], query_11000),
           (claim ''r3'' ''bitcoin'' 1000 21000, [3], query_11000),
           (claim ''r1'' ''bitcoin'' 1000 21000, [1], query_11000)])"
proof -
  let ?chunk = "[(claim ''r2'' ''bitcoin'' 1000 21000, [2::int]),
      (claim ''r3'' ''bitcoin'' 1000 21000, [3]),
      (claim ''r1'' ''bitcoin'' 1000 21000, [1])]"
  let ?info = "\<lparr>common_start = 1000, common_end = 21000, responses = [?chunk]\<rparr>"
  let ?st = "([Some 3 \<mapsto> (Some 9999, True), Some 1 \<mapsto> (Some 50, False)], (\<lambda>_. 0),
          [(claim ''r2'' ''bitcoin'' 1000 21000, [2], query_11000),
           (claim ''r3'' ''bitcoin'' 1000 21000, [3], query_11000),
           (claim ''r1'' ''bitcoin'' 1000 21000, [1], query_11000)]) :: pass_state"
  have m: "(''bitcoin'', [(0, ?info)]) \<in> set [(''bitcoin'', [(0::int, ?info)])]"
    and l: "(0, ?info) \<in> set [(0::int, ?info)]"
    and c: "?chunk \<in> set (responses ?info)" by simp_all
  from one_query_per_chunk[where km = one_cluster and cfg = example_config
      and rs = pass_a_responses and ?g0.0 = "\<lambda>_. 0" and dendrite = pass_a_dendrite]
    group_a pass_a m l c
  have "sent_same_query ?chunk ?st" by blast
  then have "\<exists>q. \<forall>(response, uid)\<in>set ?chunk. (response, uid, q) \<in> set (snd (snd ?st))"
    unfolding sent_same_query_def .
  then obtain q where "\<forall>(response, uid)\<in>set ?chunk. (response, uid, q) \<in> set (snd (snd ?st))"
    by blast
  then have "(claim ''r2'' ''bitcoin'' 1000 21000, [2::int], q) \<in> set (snd (snd ?st))"
    "(claim ''r3'' ''bitcoin'' 1000 21000, [3::int], q) \<in> set (snd (snd ?st))"
    "(claim ''r1'' ''bitcoin'' 1000 21000, [1::int], q) \<in> set (snd (snd ?st))"
    by simp_all
  then show ?thesis using pass_a by (intro conjI exI[of _ q]) simp_all
qed

end
